theory Spec2Isabelle
  imports Complex_Main "HOL-Library.Sublist" "HOL-Library.Log_Nat"
begin

section \<open>The relational library store\<close>

text \<open>
  The \<^verbatim>\<open>reduce\<close> command of \<^verbatim>\<open>easypqp/main.py\<close> works on a PQP file, an SQLite
  database. Of its tables the command reads and writes seven, and it creates and drops
  \<^verbatim>\<open>temp_anchors\<close>; tables that no statement of the command names are left out. A
  table is the list of its rows in stored order. Of a
  \<^verbatim>\<open>PRECURSOR\<close> row the command reads the columns \<^verbatim>\<open>ID\<close>, \<^verbatim>\<open>LIBRARY_RT\<close> and
  \<^verbatim>\<open>DECOY\<close>; of the other entity tables only \<^verbatim>\<open>ID\<close>; the remaining columns travel
  with their row and are left out. Every column that is read holds a value (no
  \<^verbatim>\<open>NULL\<close>). \<^verbatim>\<open>LIBRARY_RT\<close> is a finite number, held here as an exact rational:
  rounding of the machine's floating-point numbers is not part of this model.
\<close>

type_synonym path = string

record precursor =
  ID :: int
  LIBRARY_RT :: rat
  DECOY :: int

text \<open>
  Mapping rows are pairs in the column order of the schema:
  \<^verbatim>\<open>(TRANSITION_ID, PRECURSOR_ID)\<close>, \<^verbatim>\<open>(PRECURSOR_ID, PEPTIDE_ID)\<close> and
  \<^verbatim>\<open>(PEPTIDE_ID, PROTEIN_ID)\<close>. The table \<^verbatim>\<open>temp_anchors\<close> exists or not.
\<close>

record store =
  PROTEIN :: "int list"
  PEPTIDE :: "int list"
  PRECURSOR :: "precursor list"
  TRANSITION :: "int list"
  TRANSITION_PRECURSOR_MAPPING :: "(int \<times> int) list"
  PRECURSOR_PEPTIDE_MAPPING :: "(int \<times> int) list"
  PEPTIDE_PROTEIN_MAPPING :: "(int \<times> int) list"
  temp_anchors :: "(int \<times> rat) list option"

text \<open>
  A file is a database with the tables above, or one without them: newly created,
  or anything else in which the query of line 141 finds no \<^verbatim>\<open>PRECURSOR\<close> table. Such
  a file can still hold a table \<^verbatim>\<open>temp_anchors\<close>.
\<close>

datatype database = Without_tables "(int \<times> rat) list option" | Database store

datatype value_error =
    Bins_not_positive
  | Cannot_cut_empty_array
  | Bin_edges_not_unique
  | Table_already_exists

datatype error =
    SameFileError
  | FileNotFoundError
  | DatabaseError
  | OperationalError
  | ValueError value_error
  | UsageError
  | ModuleNotFoundError
  | ImportError

section \<open>The pandas operations of lines 143 to 145\<close>

text \<open>
  \<^verbatim>\<open>numpy.linspace(start, stop, num, endpoint=True)\<close>: \<open>num\<close> points with step
  \<open>(stop - start) / (num - 1)\<close>, the last one set to \<open>stop\<close> itself.
\<close>

definition linspace :: "rat \<Rightarrow> rat \<Rightarrow> nat \<Rightarrow> rat list" where
  "linspace start stop num =
     (if num = 0 then []
      else if num = 1 then [start]
      else let step = (stop - start) / of_nat (num - 1)
           in map (\<lambda>i. start + of_nat i * step) [0..<num - 1] @ [stop])"

text \<open>
  \<^verbatim>\<open>pandas.cut(x, bins, right=False, labels=False)\<close> with an integer \<open>bins\<close>. First the
  edges: an integer below one and an empty \<open>x\<close> are refused; a range of width zero is
  widened by a thousandth of the value on both sides (by 0.001 at zero) before it is
  divided; otherwise the range from the minimum to the maximum is divided and, the
  right ends being open, the last edge is moved up by a thousandth of the range.
\<close>

definition nbins_to_bins :: "rat list \<Rightarrow> int \<Rightarrow> error + rat list" where
  "nbins_to_bins x nbins =
     (if nbins < 1 then Inl (ValueError Bins_not_positive)
      else if x = [] then Inl (ValueError Cannot_cut_empty_array)
      else
        let mn = Min (set x); mx = Max (set x) in
        if mn = mx then
          let mn' = mn - (if mn \<noteq> 0 then (1 / 1000) * \<bar>mn\<bar> else 1 / 1000);
              mx' = mx + (if mx \<noteq> 0 then (1 / 1000) * \<bar>mx\<bar> else 1 / 1000)
          in Inr (linspace mn' mx' (nat nbins + 1))
        else
          let bins = linspace mn mx (nat nbins + 1);
              adj = (mx - mn) * (1 / 1000)
          in Inr (bins[length bins - 1 := last bins + adj]))"

text \<open>
  Then the labels. \<^verbatim>\<open>bins.searchsorted(x, side='right')\<close> is the index of the first
  edge above the value; a value below the first edge or not below the last one gets no
  label (NaN), any other the index of its bin, counted from zero.
\<close>

definition searchsorted_right :: "rat list \<Rightarrow> rat \<Rightarrow> nat" where
  "searchsorted_right bins v = length (takeWhile (\<lambda>e. e \<le> v) bins)"

definition cut_label :: "rat list \<Rightarrow> rat \<Rightarrow> nat option" where
  "cut_label bins v =
     (let ids = searchsorted_right bins v
      in if ids = length bins \<or> ids = 0 then None else Some (ids - 1))"

definition bins_to_cuts :: "rat list \<Rightarrow> rat list \<Rightarrow> error + nat option list" where
  "bins_to_cuts x bins =
     (if \<not> distinct bins \<and> length bins \<noteq> 2 then Inl (ValueError Bin_edges_not_unique)
      else Inr (map (cut_label bins) x))"

definition cut :: "rat list \<Rightarrow> int \<Rightarrow> error + nat option list" where
  "cut x nbins =
     (case nbins_to_bins x nbins of
        Inl e \<Rightarrow> Inl e
      | Inr bins \<Rightarrow> bins_to_cuts x bins)"

text \<open>
  \<^verbatim>\<open>groupby('BIN').head(n)\<close> keeps the rows in their order. For \<open>n \<ge> 0\<close> a row stays
  when fewer than \<open>n\<close> rows of its group come before it; for \<open>n < 0\<close> when at least
  \<open>-n\<close> rows of its group come after it. Rows without a label belong to no group and
  are dropped. \<open>head_rows\<close> walks the rows with the number of rows met so far in each
  group.
\<close>

fun head_rows :: "nat \<Rightarrow> ('k \<Rightarrow> nat) \<Rightarrow> ('k option \<times> 'a) list \<Rightarrow> 'a list" where
  "head_rows n cnt [] = []"
| "head_rows n cnt ((None, x) # rs) = head_rows n cnt rs"
| "head_rows n cnt ((Some k, x) # rs) =
     (if cnt k < n then x # head_rows n (cnt(k := Suc (cnt k))) rs
      else head_rows n (cnt(k := Suc (cnt k))) rs)"

fun all_but_last_rows :: "nat \<Rightarrow> ('k option \<times> 'a) list \<Rightarrow> 'a list" where
  "all_but_last_rows m [] = []"
| "all_but_last_rows m ((None, x) # rs) = all_but_last_rows m rs"
| "all_but_last_rows m ((Some k, x) # rs) =
     (if m \<le> length (filter (\<lambda>r. fst r = Some k) rs) then x # all_but_last_rows m rs
      else all_but_last_rows m rs)"

definition groupby_head :: "'k option list \<Rightarrow> int \<Rightarrow> 'a list \<Rightarrow> 'a list" where
  "groupby_head keys n rows =
     (if 0 \<le> n then head_rows (nat n) (\<lambda>_. 0) (zip keys rows)
      else all_but_last_rows (nat (- n)) (zip keys rows))"

section \<open>Files, the connection and the SQL statements\<close>

text \<open>
  The command acts on files and writes to the terminal. The world is the content of
  every path and the list of the actions done so far, oldest first. An action that
  raises is not listed. A path stands for the file it names: two paths are equal
  exactly when they name the same file, which is what \<^verbatim>\<open>shutil.copyfile\<close> compares.
\<close>

datatype sql =
    DELETE_PRECURSOR
  | DELETE_TRANSITION_PRECURSOR_MAPPING
  | DELETE_TRANSITION
  | DELETE_PRECURSOR_PEPTIDE_MAPPING
  | DELETE_PEPTIDE
  | DELETE_PEPTIDE_PROTEIN_MAPPING
  | DELETE_PROTEIN
  | DROP_TABLE_temp_anchors
  | VACUUM

datatype event =
    Copyfile path path
  | Connect path
  | Read_sql
  | To_sql
  | Execute sql
  | Commit
  | Close
  | Echo

record world =
  files :: "path \<Rightarrow> database option"
  log :: "event list"

text \<open>
  A connection knows its file, the tables as its own statements have left them, and
  whether a transaction is open. An action maps the world to a result or an error and
  the world it leaves.
\<close>

record connection =
  db_path :: path
  pending :: database
  in_transaction :: bool

type_synonym 'a io = "world \<Rightarrow> (error + 'a) \<times> world"

definition bind :: "'a io \<Rightarrow> ('a \<Rightarrow> 'b io) \<Rightarrow> 'b io" where
  "bind m f w = (case m w of (Inl e, w') \<Rightarrow> (Inl e, w') | (Inr x, w') \<Rightarrow> f x w')"

definition done_event :: "event \<Rightarrow> world \<Rightarrow> world" where
  "done_event ev w = w\<lparr>log := log w @ [ev]\<rparr>"

text \<open>
  \<^verbatim>\<open>shutil.copyfile(src, dst)\<close> raises when both name the same existing file and when
  the source is missing; otherwise the destination gets the content of the source.
\<close>

definition copyfile :: "path \<Rightarrow> path \<Rightarrow> unit io" where
  "copyfile src dst w =
     (case files w src of
        None \<Rightarrow> (Inl FileNotFoundError, w)
      | Some content \<Rightarrow>
          if src = dst then (Inl SameFileError, w)
          else (Inr (), done_event (Copyfile src dst) (w\<lparr>files := (files w)(dst \<mapsto> content)\<rparr>)))"

text \<open>\<^verbatim>\<open>sqlite3.connect(path)\<close> opens the file, creating an empty database when it is missing.\<close>

definition connect :: "path \<Rightarrow> connection io" where
  "connect p w =
     (case files w p of
        None \<Rightarrow>
          (Inr \<lparr>db_path = p, pending = Without_tables None, in_transaction = False\<rparr>,
           done_event (Connect p) (w\<lparr>files := (files w)(p \<mapsto> Without_tables None)\<rparr>))
      | Some db \<Rightarrow>
          (Inr \<lparr>db_path = p, pending = db, in_transaction = False\<rparr>, done_event (Connect p) w))"

text \<open>
  Line 141:
  \<^verbatim>\<open>SELECT PRECURSOR.ID AS PRECURSOR_ID, LIBRARY_RT FROM PRECURSOR WHERE PRECURSOR.DECOY == 0;\<close>
\<close>

definition select_anchor_candidates :: "store \<Rightarrow> (int \<times> rat) list" where
  "select_anchor_candidates s =
     map (\<lambda>p. (ID p, LIBRARY_RT p)) (filter (\<lambda>p. DECOY p = 0) (PRECURSOR s))"

definition read_sql :: "connection \<Rightarrow> (int \<times> rat) list io" where
  "read_sql con w =
     (case pending con of
        Without_tables t \<Rightarrow> (Inl DatabaseError, w)
      | Database s \<Rightarrow> (Inr (select_anchor_candidates s), done_event Read_sql w))"

text \<open>
  Line 147: \<^verbatim>\<open>to_sql('temp_anchors', con, index=False)\<close> refuses a table that exists;
  otherwise it creates and fills the table and commits.
\<close>

definition create_temp_anchors :: "(int \<times> rat) list \<Rightarrow> database \<Rightarrow> error + database" where
  "create_temp_anchors rows db =
     (case db of
        Without_tables None \<Rightarrow> Inr (Without_tables (Some rows))
      | Without_tables (Some _) \<Rightarrow> Inl (ValueError Table_already_exists)
      | Database s \<Rightarrow>
          (case temp_anchors s of
             Some _ \<Rightarrow> Inl (ValueError Table_already_exists)
           | None \<Rightarrow> Inr (Database (s\<lparr>temp_anchors := Some rows\<rparr>))))"

definition to_sql :: "(int \<times> rat) list \<Rightarrow> connection \<Rightarrow> connection io" where
  "to_sql rows con w =
     (case create_temp_anchors rows (pending con) of
        Inl e \<Rightarrow> (Inl e, w)
      | Inr db \<Rightarrow>
          (Inr (con\<lparr>pending := db, in_transaction := False\<rparr>),
           done_event To_sql (w\<lparr>files := (files w)(db_path con \<mapsto> db)\<rparr>)))"

text \<open>
  The statements of lines 150 to 168 on the tables. \<^verbatim>\<open>DELETE FROM T WHERE c NOT IN (SELECT ...)\<close>
  keeps the rows of \<open>T\<close> whose \<open>c\<close> is among the selected values. A statement that
  names \<^verbatim>\<open>temp_anchors\<close> fails when that table does not exist.
\<close>

fun run_sql :: "sql \<Rightarrow> store \<Rightarrow> error + store" where
  "run_sql DELETE_PRECURSOR s =
     (case temp_anchors s of
        None \<Rightarrow> Inl OperationalError
      | Some a \<Rightarrow> Inr (s\<lparr>PRECURSOR := filter (\<lambda>p. ID p \<in> set (map fst a)) (PRECURSOR s)\<rparr>))"
| "run_sql DELETE_TRANSITION_PRECURSOR_MAPPING s =
     (case temp_anchors s of
        None \<Rightarrow> Inl OperationalError
      | Some a \<Rightarrow> Inr (s\<lparr>TRANSITION_PRECURSOR_MAPPING :=
          filter (\<lambda>r. snd r \<in> set (map fst a)) (TRANSITION_PRECURSOR_MAPPING s)\<rparr>))"
| "run_sql DELETE_TRANSITION s =
     Inr (s\<lparr>TRANSITION :=
       filter (\<lambda>t. t \<in> set (map fst (TRANSITION_PRECURSOR_MAPPING s))) (TRANSITION s)\<rparr>)"
| "run_sql DELETE_PRECURSOR_PEPTIDE_MAPPING s =
     (case temp_anchors s of
        None \<Rightarrow> Inl OperationalError
      | Some a \<Rightarrow> Inr (s\<lparr>PRECURSOR_PEPTIDE_MAPPING :=
          filter (\<lambda>r. fst r \<in> set (map fst a)) (PRECURSOR_PEPTIDE_MAPPING s)\<rparr>))"
| "run_sql DELETE_PEPTIDE s =
     Inr (s\<lparr>PEPTIDE :=
       filter (\<lambda>i. i \<in> set (map snd (PRECURSOR_PEPTIDE_MAPPING s))) (PEPTIDE s)\<rparr>)"
| "run_sql DELETE_PEPTIDE_PROTEIN_MAPPING s =
     Inr (s\<lparr>PEPTIDE_PROTEIN_MAPPING :=
       filter (\<lambda>r. fst r \<in> set (map snd (PRECURSOR_PEPTIDE_MAPPING s))) (PEPTIDE_PROTEIN_MAPPING s)\<rparr>)"
| "run_sql DELETE_PROTEIN s =
     Inr (s\<lparr>PROTEIN :=
       filter (\<lambda>i. i \<in> set (map snd (PEPTIDE_PROTEIN_MAPPING s))) (PROTEIN s)\<rparr>)"
| "run_sql DROP_TABLE_temp_anchors s =
     (case temp_anchors s of
        None \<Rightarrow> Inl OperationalError
      | Some a \<Rightarrow> Inr (s\<lparr>temp_anchors := None\<rparr>))"
| "run_sql VACUUM s = Inr s"

text \<open>
  \<^verbatim>\<open>con.execute\<close>: a \<^verbatim>\<open>DELETE\<close> opens a transaction when none is open; any other
  statement runs in the open transaction or, without one, takes effect in the file at
  once. SQLite refuses \<^verbatim>\<open>VACUUM\<close> inside a transaction.
\<close>

definition is_delete :: "sql \<Rightarrow> bool" where
  "is_delete q \<longleftrightarrow> q \<noteq> DROP_TABLE_temp_anchors \<and> q \<noteq> VACUUM"

definition run_statement :: "sql \<Rightarrow> database \<Rightarrow> error + database" where
  "run_statement q db =
     (case db of
        Database s \<Rightarrow> (case run_sql q s of Inl e \<Rightarrow> Inl e | Inr s' \<Rightarrow> Inr (Database s'))
      | Without_tables t \<Rightarrow>
          if q = VACUUM then Inr db
          else if q = DROP_TABLE_temp_anchors \<and> t \<noteq> None then Inr (Without_tables None)
          else Inl OperationalError)"

definition execute :: "sql \<Rightarrow> connection \<Rightarrow> connection io" where
  "execute q con w =
     (if q = VACUUM \<and> in_transaction con then (Inl OperationalError, w)
      else case run_statement q (pending con) of
        Inl e \<Rightarrow> (Inl e, w)
      | Inr db \<Rightarrow>
          if in_transaction con \<or> is_delete q
          then (Inr (con\<lparr>pending := db, in_transaction := True\<rparr>), done_event (Execute q) w)
          else (Inr (con\<lparr>pending := db\<rparr>),
                done_event (Execute q) (w\<lparr>files := (files w)(db_path con \<mapsto> db)\<rparr>)))"

definition commit :: "connection \<Rightarrow> connection io" where
  "commit con w =
     (Inr (con\<lparr>in_transaction := False\<rparr>),
      done_event Commit
        (if in_transaction con then w\<lparr>files := (files w)(db_path con \<mapsto> pending con)\<rparr> else w))"

definition close :: "connection \<Rightarrow> unit io" where
  "close con w = (Inr (), done_event Close w)"

definition echo :: "unit io" where
  "echo w = (Inr (), done_event Echo w)"

section \<open>The reduce command\<close>

text \<open>Lines 143 to 145: the bins of the candidates and the first rows of every bin.\<close>

definition select_anchors :: "(int \<times> rat) list \<Rightarrow> int \<Rightarrow> int \<Rightarrow> error + (int \<times> rat) list" where
  "select_anchors anchor_candidates bins peptides =
     (case cut (map snd anchor_candidates) bins of
        Inl e \<Rightarrow> Inl e
      | Inr BIN \<Rightarrow> Inr (groupby_head BIN peptides anchor_candidates))"

definition pandas :: "error + 'a \<Rightarrow> 'a io" where
  "pandas r w = (r, w)"

text \<open>Lines 133 to 137: without an output path the input file itself is reduced.\<close>

definition define_outfile :: "path \<Rightarrow> path option \<Rightarrow> path io" where
  "define_outfile infile outfile w =
     (case outfile of
        None \<Rightarrow> (Inr infile, w)
      | Some out \<Rightarrow> bind (copyfile infile out) (\<lambda>_ w'. (Inr out, w')) w)"

definition reduce :: "path \<Rightarrow> path option \<Rightarrow> int \<Rightarrow> int \<Rightarrow> unit io" where
  "reduce infile outfile bins peptides =
     bind (define_outfile infile outfile) (\<lambda>out.
     bind (connect out) (\<lambda>con.
     bind (read_sql con) (\<lambda>anchor_candidates.
     bind (pandas (select_anchors anchor_candidates bins peptides)) (\<lambda>anchors.
     bind (to_sql anchors con) (\<lambda>con.
     bind (execute DELETE_PRECURSOR con) (\<lambda>con.
     bind (execute DELETE_TRANSITION_PRECURSOR_MAPPING con) (\<lambda>con.
     bind (execute DELETE_TRANSITION con) (\<lambda>con.
     bind (execute DELETE_PRECURSOR_PEPTIDE_MAPPING con) (\<lambda>con.
     bind (execute DELETE_PEPTIDE con) (\<lambda>con.
     bind (execute DELETE_PEPTIDE_PROTEIN_MAPPING con) (\<lambda>con.
     bind (execute DELETE_PROTEIN con) (\<lambda>con.
     bind (execute DROP_TABLE_temp_anchors con) (\<lambda>con.
     bind (commit con) (\<lambda>con.
     bind (execute VACUUM con) (\<lambda>con.
     bind (close con) (\<lambda>_.
     echo))))))))))))))))"

text \<open>
  Lines 121 to 126: the command line. \<^verbatim>\<open>--in\<close> is required and must name an existing
  file, \<^verbatim>\<open>--out\<close> is required, \<^verbatim>\<open>--bins\<close> and \<^verbatim>\<open>--peptides\<close> are any integers;
  click raises a usage error before the function runs when a required option is absent
  or the input path does not exist.
\<close>

definition reduce_command :: "path option \<Rightarrow> path option \<Rightarrow> int \<Rightarrow> int \<Rightarrow> unit io" where
  "reduce_command in_opt out_opt bins peptides w =
     (case in_opt of
        None \<Rightarrow> (Inl UsageError, w)
      | Some infile \<Rightarrow>
          if files w infile = None then (Inl UsageError, w)
          else (case out_opt of
                  None \<Rightarrow> (Inl UsageError, w)
                | Some outfile \<Rightarrow> reduce infile (Some outfile) bins peptides w))"

section \<open>The library command and the optional import\<close>

text \<open>
  Lines 14 to 17: the name \<^verbatim>\<open>transform_pi0_lambda\<close> is bound to the function imported
  from pyprophet, or to \<^verbatim>\<open>None\<close> when the import raises \<^verbatim>\<open>ModuleNotFoundError\<close>; any
  other error of the import leaves the module unloaded.
\<close>

definition transform_pi0_lambda :: "error + 'f \<Rightarrow> error + 'f option" where
  "transform_pi0_lambda imported =
     (case imported of
        Inr f \<Rightarrow> Inr (Some f)
      | Inl e \<Rightarrow> if e = ModuleNotFoundError then Inr None else Inl e)"

text \<open>
  Line 105: the option \<^verbatim>\<open>--pi0_lambda\<close> takes three numbers and has the bound name as
  its callback. click passes the value through a callback that is not \<^verbatim>\<open>None\<close> and
  hands it on as it is otherwise. Lines 112 to 118: the command calls \<^verbatim>\<open>generate\<close>
  of \<^verbatim>\<open>easypqp/library.py\<close> with its options. That function is outside this
  development, so a run of the command ends here in the call it makes (the other
  twenty-five arguments are passed on as given and are left out) or in the error raised
  before.
\<close>

datatype 'v pi0_lambda = Tuple "rat \<times> rat \<times> rat" | Transformed 'v

datatype 'v library_run = Raised error | Calls_generate "'v pi0_lambda"

definition library :: "(rat \<times> rat \<times> rat \<Rightarrow> error + 'v) option \<Rightarrow> rat \<times> rat \<times> rat \<Rightarrow> 'v library_run" where
  "library callback value =
     (case callback of
        None \<Rightarrow> Calls_generate (Tuple value)
      | Some f \<Rightarrow> (case f value of Inl e \<Rightarrow> Raised e | Inr v \<Rightarrow> Calls_generate (Transformed v)))"

definition library_command ::
  "error + (rat \<times> rat \<times> rat \<Rightarrow> error + 'v) \<Rightarrow> rat \<times> rat \<times> rat \<Rightarrow> 'v library_run" where
  "library_command imported value =
     (case transform_pi0_lambda imported of
        Inl e \<Rightarrow> Raised e
      | Inr callback \<Rightarrow> library callback value)"

section \<open>Properties of a store\<close>

text \<open>
  The invariant of the relational store: every mapping row names an existing row on
  both sides, and every protein, peptide, precursor and transition is named by at least
  one mapping row.
\<close>

definition referential_integrity :: "store \<Rightarrow> bool" where
  "referential_integrity s \<longleftrightarrow>
     (\<forall>r\<in>set (TRANSITION_PRECURSOR_MAPPING s).
        fst r \<in> set (TRANSITION s) \<and> snd r \<in> ID ` set (PRECURSOR s)) \<and>
     (\<forall>r\<in>set (PRECURSOR_PEPTIDE_MAPPING s).
        fst r \<in> ID ` set (PRECURSOR s) \<and> snd r \<in> set (PEPTIDE s)) \<and>
     (\<forall>r\<in>set (PEPTIDE_PROTEIN_MAPPING s).
        fst r \<in> set (PEPTIDE s) \<and> snd r \<in> set (PROTEIN s)) \<and>
     (\<forall>t\<in>set (TRANSITION s). t \<in> fst ` set (TRANSITION_PRECURSOR_MAPPING s)) \<and>
     (\<forall>p\<in>set (PRECURSOR s).
        ID p \<in> snd ` set (TRANSITION_PRECURSOR_MAPPING s) \<union> fst ` set (PRECURSOR_PEPTIDE_MAPPING s)) \<and>
     (\<forall>i\<in>set (PEPTIDE s).
        i \<in> snd ` set (PRECURSOR_PEPTIDE_MAPPING s) \<union> fst ` set (PEPTIDE_PROTEIN_MAPPING s)) \<and>
     (\<forall>i\<in>set (PROTEIN s). i \<in> snd ` set (PEPTIDE_PROTEIN_MAPPING s))"

text \<open>\<^verbatim>\<open>ID\<close> is the primary key of \<^verbatim>\<open>PRECURSOR\<close>: no two rows share it.\<close>

definition primary_key :: "store \<Rightarrow> bool" where
  "primary_key s \<longleftrightarrow> distinct (map ID (PRECURSOR s))"

text \<open>
  The bin that line 143 gives to a retention time in a store: the label of the value
  against the edges computed from the store's candidates.
\<close>

definition candidate_rts :: "store \<Rightarrow> rat list" where
  "candidate_rts s = map snd (select_anchor_candidates s)"

definition assigned_bin :: "store \<Rightarrow> int \<Rightarrow> rat \<Rightarrow> nat option" where
  "assigned_bin s bins v =
     (case nbins_to_bins (candidate_rts s) bins of
        Inl e \<Rightarrow> None
      | Inr edges \<Rightarrow> cut_label edges v)"

text \<open>
  The rows of \<^verbatim>\<open>PRECURSOR\<close> behind the anchors of line 145: the candidates, grouped
  by their bin, the first of every group.
\<close>

definition anchor_rows :: "store \<Rightarrow> int \<Rightarrow> int \<Rightarrow> precursor list" where
  "anchor_rows s bins peptides =
     (let candidates = filter (\<lambda>p. DECOY p = 0) (PRECURSOR s)
      in groupby_head (map (\<lambda>p. assigned_bin s bins (LIBRARY_RT p)) candidates) peptides candidates)"



text \<open>The range that line 143 divides: the candidates' range, widened when its width is zero.\<close>

definition binned_range :: "rat list \<Rightarrow> rat \<times> rat" where
  "binned_range x =
     (let mn = Min (set x); mx = Max (set x) in
      if mn = mx
      then (mn - (if mn \<noteq> 0 then (1 / 1000) * \<bar>mn\<bar> else 1 / 1000),
            mx + (if mx \<noteq> 0 then (1 / 1000) * \<bar>mx\<bar> else 1 / 1000))
      else (mn, mx))"

text \<open>The edges of line 143 in closed form, for \<open>n\<close> bins over the values \<open>x\<close>.\<close>

definition edge :: "rat list \<Rightarrow> nat \<Rightarrow> nat \<Rightarrow> rat" where
  "edge x n i =
     fst (binned_range x) + of_nat i * ((snd (binned_range x) - fst (binned_range x)) / of_nat n)"

definition upper_edge :: "rat list \<Rightarrow> rat" where
  "upper_edge x =
     (if Min (set x) = Max (set x) then snd (binned_range x)
      else snd (binned_range x) + (snd (binned_range x) - fst (binned_range x)) * (1 / 1000))"

definition bin_edges :: "rat list \<Rightarrow> nat \<Rightarrow> rat list" where
  "bin_edges x n = map (edge x n) [0..<n] @ [upper_edge x]"

text \<open>The tables after the statements of lines 150 to 163, for the anchors \<open>a\<close>.\<close>

definition reduced_tables :: "(int \<times> rat) list \<Rightarrow> store \<Rightarrow> store" where
  "reduced_tables a s =
     (let tpm = filter (\<lambda>r. snd r \<in> fst ` set a) (TRANSITION_PRECURSOR_MAPPING s);
          ppm = filter (\<lambda>r. fst r \<in> fst ` set a) (PRECURSOR_PEPTIDE_MAPPING s);
          pp = filter (\<lambda>r. fst r \<in> snd ` set ppm) (PEPTIDE_PROTEIN_MAPPING s)
      in s\<lparr>PRECURSOR := filter (\<lambda>p. ID p \<in> fst ` set a) (PRECURSOR s),
           TRANSITION_PRECURSOR_MAPPING := tpm,
           TRANSITION := filter (\<lambda>t. t \<in> fst ` set tpm) (TRANSITION s),
           PRECURSOR_PEPTIDE_MAPPING := ppm,
           PEPTIDE := filter (\<lambda>i. i \<in> snd ` set ppm) (PEPTIDE s),
           PEPTIDE_PROTEIN_MAPPING := pp,
           PROTEIN := filter (\<lambda>i. i \<in> snd ` set pp) (PROTEIN s),
           temp_anchors := None\<rparr>)"

definition reduce_events :: "path \<Rightarrow> path \<Rightarrow> event list" where
  "reduce_events infile outfile =
     [Copyfile infile outfile, Connect outfile, Read_sql, To_sql,
      Execute DELETE_PRECURSOR, Execute DELETE_TRANSITION_PRECURSOR_MAPPING,
      Execute DELETE_TRANSITION, Execute DELETE_PRECURSOR_PEPTIDE_MAPPING,
      Execute DELETE_PEPTIDE, Execute DELETE_PEPTIDE_PROTEIN_MAPPING,
      Execute DELETE_PROTEIN, Execute DROP_TABLE_temp_anchors,
      Commit, Execute VACUUM, Close, Echo]"

section \<open>The arithmetic of the machine\<close>

text \<open>
  \<^verbatim>\<open>LIBRARY_RT\<close> is a \<^verbatim>\<open>REAL\<close> column, and numpy and pandas compute the edges of
  line 143 in IEEE doubles: every operation gives the exact result rounded to the
  nearest double, a tie going to the even mantissa. A double is a rational number, so
  rounding is a function on the rationals. \<open>double\<close> rounds to 53 bits; the range of
  the exponent is not modelled (no overflow, no subnormal numbers).
\<close>

definition round_half_even :: "rat \<Rightarrow> int" where
  "round_half_even x =
     (let f = \<lfloor>x\<rfloor>; d = x - of_int f
      in if d < 1 / 2 then f else if 1 / 2 < d then f + 1 else if even f then f else f + 1)"

text \<open>
  The exponent of the power of two at or below a positive rational \<open>x\<close>: the number of
  binary digits of \<open>\<lfloor>x\<rfloor>\<close> less one when \<open>1 \<le> x\<close>, and below 1 the negated number of
  digits of \<open>\<lceil>1 / x\<rceil> - 1\<close>.
\<close>

definition ilog2 :: "rat \<Rightarrow> int" where
  "ilog2 x =
     (if 1 \<le> x then int (floorlog 2 (nat \<lfloor>x\<rfloor>)) - 1
      else - int (floorlog 2 (nat (\<lceil>1 / x\<rceil> - 1))))"

definition double :: "rat \<Rightarrow> rat" where
  "double x =
     (if x = 0 then 0
      else let e = ilog2 \<bar>x\<bar> - 52
           in of_int (round_half_even (x / 2 powi e)) * 2 powi e)"

text \<open>
  The operations of lines 143 to 145 once more, every arithmetic result rounded by
  \<open>fl\<close>; comparisons are exact. \<^verbatim>\<open>numpy.linspace\<close> subtracts, divides the difference
  by the number of steps, multiplies the step by the index and adds the start (when the
  step comes out as zero it divides the index first and multiplies by the difference),
  and sets the last point to \<open>stop\<close>. With the identity for \<open>fl\<close> these are the
  definitions of the exact computation above.
\<close>

definition linspace_fl :: "(rat \<Rightarrow> rat) \<Rightarrow> rat \<Rightarrow> rat \<Rightarrow> nat \<Rightarrow> rat list" where
  "linspace_fl fl start stop num =
     (if num = 0 then []
      else if num = 1 then [fl (fl (0 * fl (stop - start)) + start)]
      else let n = num - 1;
               delta = fl (stop - start);
               step = fl (delta / of_nat n);
               y = (if step = 0
                    then map (\<lambda>i. fl (fl (of_nat i / of_nat n) * delta)) [0..<n]
                    else map (\<lambda>i. fl (of_nat i * step)) [0..<n])
           in map (\<lambda>v. fl (v + start)) y @ [stop])"

definition nbins_to_bins_fl :: "(rat \<Rightarrow> rat) \<Rightarrow> rat list \<Rightarrow> int \<Rightarrow> error + rat list" where
  "nbins_to_bins_fl fl x nbins =
     (if nbins < 1 then Inl (ValueError Bins_not_positive)
      else if x = [] then Inl (ValueError Cannot_cut_empty_array)
      else
        let mn = Min (set x); mx = Max (set x); c = fl (1 / 1000) in
        if mn = mx then
          let mn' = fl (mn - (if mn \<noteq> 0 then fl (c * \<bar>mn\<bar>) else c));
              mx' = fl (mx + (if mx \<noteq> 0 then fl (c * \<bar>mx\<bar>) else c))
          in Inr (linspace_fl fl mn' mx' (nat nbins + 1))
        else
          let bins = linspace_fl fl mn mx (nat nbins + 1);
              adj = fl (fl (mx - mn) * c)
          in Inr (bins[length bins - 1 := fl (last bins + adj)]))"

definition cut_fl :: "(rat \<Rightarrow> rat) \<Rightarrow> rat list \<Rightarrow> int \<Rightarrow> error + nat option list" where
  "cut_fl fl x nbins =
     (case nbins_to_bins_fl fl x nbins of
        Inl e \<Rightarrow> Inl e
      | Inr bins \<Rightarrow> bins_to_cuts x bins)"

definition select_anchors_fl ::
  "(rat \<Rightarrow> rat) \<Rightarrow> (int \<times> rat) list \<Rightarrow> int \<Rightarrow> int \<Rightarrow> error + (int \<times> rat) list" where
  "select_anchors_fl fl anchor_candidates bins peptides =
     (case cut_fl fl (map snd anchor_candidates) bins of
        Inl e \<Rightarrow> Inl e
      | Inr BIN \<Rightarrow> Inr (groupby_head BIN peptides anchor_candidates))"

definition reduce_fl :: "(rat \<Rightarrow> rat) \<Rightarrow> path \<Rightarrow> path option \<Rightarrow> int \<Rightarrow> int \<Rightarrow> unit io" where
  "reduce_fl fl infile outfile bins peptides =
     bind (define_outfile infile outfile) (\<lambda>out.
     bind (connect out) (\<lambda>con.
     bind (read_sql con) (\<lambda>anchor_candidates.
     bind (pandas (select_anchors_fl fl anchor_candidates bins peptides)) (\<lambda>anchors.
     bind (to_sql anchors con) (\<lambda>con.
     bind (execute DELETE_PRECURSOR con) (\<lambda>con.
     bind (execute DELETE_TRANSITION_PRECURSOR_MAPPING con) (\<lambda>con.
     bind (execute DELETE_TRANSITION con) (\<lambda>con.
     bind (execute DELETE_PRECURSOR_PEPTIDE_MAPPING con) (\<lambda>con.
     bind (execute DELETE_PEPTIDE con) (\<lambda>con.
     bind (execute DELETE_PEPTIDE_PROTEIN_MAPPING con) (\<lambda>con.
     bind (execute DELETE_PROTEIN con) (\<lambda>con.
     bind (execute DROP_TABLE_temp_anchors con) (\<lambda>con.
     bind (commit con) (\<lambda>con.
     bind (execute VACUUM con) (\<lambda>con.
     bind (close con) (\<lambda>_.
     echo))))))))))))))))"

definition reduce_command_fl ::
  "(rat \<Rightarrow> rat) \<Rightarrow> path option \<Rightarrow> path option \<Rightarrow> int \<Rightarrow> int \<Rightarrow> unit io" where
  "reduce_command_fl fl in_opt out_opt bins peptides w =
     (case in_opt of
        None \<Rightarrow> (Inl UsageError, w)
      | Some infile \<Rightarrow>
          if files w infile = None then (Inl UsageError, w)
          else (case out_opt of
                  None \<Rightarrow> (Inl UsageError, w)
                | Some outfile \<Rightarrow> reduce_fl fl infile (Some outfile) bins peptides w))"

section \<open>Example stores\<close>

definition row :: "int \<Rightarrow> rat \<Rightarrow> int \<Rightarrow> precursor" where
  "row i rt d = \<lparr>ID = i, LIBRARY_RT = rt, DECOY = d\<rparr>"

text \<open>
  Five target precursors with retention times 9, 10, 29, 0 and 30 in stored order and
  one decoy, each with one transition and one peptide; two proteins.
\<close>

definition gradient_store :: store where
  "gradient_store =
     \<lparr>PROTEIN = [31, 32],
      PEPTIDE = [21, 22, 23, 24, 25, 26],
      PRECURSOR = [row 1 9 0, row 2 10 0, row 3 29 0, row 4 0 0, row 5 30 0, row 6 12 1],
      TRANSITION = [11, 12, 13, 14, 15, 16],
      TRANSITION_PRECURSOR_MAPPING = [(11, 1), (12, 2), (13, 3), (14, 4), (15, 5), (16, 6)],
      PRECURSOR_PEPTIDE_MAPPING = [(1, 21), (2, 22), (3, 23), (4, 24), (5, 25), (6, 26)],
      PEPTIDE_PROTEIN_MAPPING = [(21, 31), (22, 31), (23, 31), (24, 31), (25, 31), (26, 32)],
      temp_anchors = None\<rparr>"





text \<open>
  A store in which three precursors share the identifier 1, one of them a decoy: no
  store with \<^verbatim>\<open>ID\<close> as primary key looks like this, and nothing in the command
  checks it.
\<close>

definition duplicate_store :: store where
  "duplicate_store =
     \<lparr>PROTEIN = [31],
      PEPTIDE = [21, 22],
      PRECURSOR = [row 1 0 0, row 1 1 0, row 1 2 1, row 2 10 0],
      TRANSITION = [11, 12],
      TRANSITION_PRECURSOR_MAPPING = [(11, 1), (12, 2)],
      PRECURSOR_PEPTIDE_MAPPING = [(1, 21), (2, 22)],
      PEPTIDE_PROTEIN_MAPPING = [(21, 31), (22, 31)],
      temp_anchors = None\<rparr>"

text \<open>
  Two target precursors whose retention times are neighbouring doubles, 1 and the next
  double above it.
\<close>

definition ulp_store :: store where
  "ulp_store =
     \<lparr>PROTEIN = [31],
      PEPTIDE = [21, 22],
      PRECURSOR = [row 1 1 0, row 2 (1 + 1 / 2 ^ 52) 0],
      TRANSITION = [11, 12],
      TRANSITION_PRECURSOR_MAPPING = [(11, 1), (12, 2)],
      PRECURSOR_PEPTIDE_MAPPING = [(1, 21), (2, 22)],
      PEPTIDE_PROTEIN_MAPPING = [(21, 31), (22, 31)],
      temp_anchors = None\<rparr>"

definition disk :: "store \<Rightarrow> world" where
  "disk s = \<lparr>files = [''library.pqp'' \<mapsto> Database s], log = []\<rparr>"

section \<open>The command as a whole\<close>

lemmas io_defs = bind_def define_outfile_def copyfile_def connect_def read_sql_def pandas_def
  to_sql_def create_temp_anchors_def execute_def run_statement_def commit_def close_def echo_def
  done_event_def is_delete_def

lemma reduce_success:
  assumes "files w infile = Some (Database s)" "outfile \<noteq> infile" "temp_anchors s = None"
    "select_anchors (select_anchor_candidates s) bins peptides = Inr a"
  shows "reduce infile (Some outfile) bins peptides w =
    (Inr (), w\<lparr>files := (files w)(outfile \<mapsto> Database (reduced_tables a s)),
               log := log w @ reduce_events infile outfile\<rparr>)"
  using assms
  by (simp add: reduce_def io_defs reduced_tables_def reduce_events_def Let_def)

lemma reduce_inversion:
  assumes "fst (reduce infile (Some outfile) bins peptides w) = Inr ()"
  shows "\<exists>s a. files w infile = Some (Database s) \<and> outfile \<noteq> infile \<and> temp_anchors s = None \<and>
    select_anchors (select_anchor_candidates s) bins peptides = Inr a"
  using assms
  by (auto simp add: reduce_def io_defs split: option.splits database.splits sum.splits if_splits)

section \<open>The bins\<close>

lemma binned_range_less:
  "fst (binned_range x) < snd (binned_range x)" if "x \<noteq> []"
proof -
  have "Min (set x) \<le> Max (set x)" using that by simp
  then show ?thesis
    by (auto simp: binned_range_def Let_def abs_if)
qed

lemma nbins_to_bins_eq:
  "nbins_to_bins x N =
     (if N < 1 then Inl (ValueError Bins_not_positive)
      else if x = [] then Inl (ValueError Cannot_cut_empty_array)
      else Inr (bin_edges x (nat N)))"
  by (auto simp: nbins_to_bins_def bin_edges_def edge_def upper_edge_def binned_range_def
      linspace_def Let_def list_update_append nat_eq_iff2)


lemma edge_mono:
  assumes "x \<noteq> []" "0 < n" "i < j"
  shows "edge x n i < edge x n j"
proof -
  have "0 < (snd (binned_range x) - fst (binned_range x)) / of_nat n"
    using binned_range_less[OF assms(1)] assms(2) by simp
  moreover have "(of_nat i :: rat) < of_nat j" using assms(3) by simp
  ultimately show ?thesis
    unfolding edge_def by (simp only: add_less_cancel_left mult_strict_right_mono)
qed

lemma edge_last: "0 < n \<Longrightarrow> edge x n n = snd (binned_range x)"
  by (simp add: edge_def)


lemma upper_edge_ge: "x \<noteq> [] \<Longrightarrow> snd (binned_range x) \<le> upper_edge x"
  using binned_range_less[of x] by (simp add: upper_edge_def)


lemma distinct_bin_edges:
  assumes "x \<noteq> []" "0 < n"
  shows "distinct (bin_edges x n)"
proof -
  have "inj_on (edge x n) {0..<n}"
    by (rule inj_onI) (metis edge_mono[OF assms] less_irrefl linorder_neqE_nat)
  then have "distinct (map (edge x n) [0..<n])" by (simp add: distinct_map)
  moreover have "upper_edge x \<notin> edge x n ` {0..<n}"
  proof
    assume "upper_edge x \<in> edge x n ` {0..<n}"
    then obtain i where "i < n" "upper_edge x = edge x n i" by auto
    then have "upper_edge x < edge x n n" using edge_mono[OF assms] by simp
    then show False using edge_last[OF assms(2)] upper_edge_ge[OF assms(1)] by simp
  qed
  ultimately show ?thesis by (simp add: bin_edges_def)
qed

lemma cut_eq:
  assumes "1 \<le> N" "x \<noteq> []"
  shows "cut x N = Inr (map (cut_label (bin_edges x (nat N))) x)"
  using assms distinct_bin_edges[of x "nat N"]
  by (simp add: cut_def nbins_to_bins_eq bins_to_cuts_def)


section \<open>The first rows of every group\<close>

lemma head_rows_map:
  "head_rows n cnt (map (\<lambda>r. (fst r, h (snd r))) rs) = map h (head_rows n cnt rs)"
proof (induction rs arbitrary: cnt)
  case Nil
  show ?case by simp
next
  case (Cons r rs)
  obtain k x where r: "r = (k, x)" by (cases r)
  show ?case
  proof (cases k)
    case None
    then show ?thesis by (simp add: r Cons)
  next
    case (Some a)
    have "head_rows n (cnt(a := Suc (cnt a))) (map (\<lambda>r. (fst r, h (snd r))) rs) =
      map h (head_rows n (cnt(a := Suc (cnt a))) rs)" by (rule Cons)
    then show ?thesis by (simp add: r Some)
  qed
qed

lemma all_but_last_rows_map:
  "all_but_last_rows m (map (\<lambda>r. (fst r, h (snd r))) rs) = map h (all_but_last_rows m rs)"
proof (induction rs)
  case Nil
  show ?case by simp
next
  case (Cons r rs)
  obtain k x where r: "r = (k, x)" by (cases r)
  show ?case by (cases k) (simp_all add: r Cons filter_map comp_def)
qed

lemma groupby_head_map:
  "groupby_head keys n (map h rows) = map h (groupby_head keys n rows)"
proof -
  have "zip keys (map h rows) = map (\<lambda>r. (fst r, h (snd r))) (zip keys rows)"
    by (simp add: zip_map2 case_prod_beta)
  then show ?thesis
    by (simp add: groupby_head_def head_rows_map all_but_last_rows_map)
qed

lemma zip_keys: "zip (map key xs) xs = map (\<lambda>r. (key r, r)) xs"
  by (induction xs) simp_all

lemma head_rows_subseq: "subseq (head_rows n cnt (map (\<lambda>r. (key r, r)) xs)) xs"
proof (induction xs arbitrary: cnt)
  case Nil
  show ?case by simp
next
  case (Cons x xs)
  show ?case by (cases "key x") (auto intro: list_emb_Cons Cons)
qed

lemma all_but_last_rows_subseq: "subseq (all_but_last_rows m (map (\<lambda>r. (key r, r)) xs)) xs"
proof (induction xs)
  case Nil
  show ?case by simp
next
  case (Cons x xs)
  then show ?case by (cases "key x") (auto intro: list_emb_Cons)
qed

lemma groupby_head_subseq: "subseq (groupby_head (map key xs) n xs) xs"
  by (simp add: groupby_head_def zip_keys head_rows_subseq all_but_last_rows_subseq)





section \<open>The anchors and the rows that stay\<close>

lemma subseq_set: "subseq ys xs \<Longrightarrow> set ys \<subseteq> set xs"
  by (auto elim: list_emb_set)

lemma subseq_filter_mem:
  "subseq ys xs \<Longrightarrow> distinct xs \<Longrightarrow> filter (\<lambda>x. x \<in> set ys) xs = ys"
proof (induction rule: list_emb.induct)
  case (list_emb_Nil ys)
  show ?case by simp
next
  case (list_emb_Cons xs ys y)
  then have "y \<notin> set xs" using subseq_set[of xs ys] by auto
  then show ?case using list_emb_Cons by simp
next
  case (list_emb_Cons2 x y xs ys)
  then have "filter (\<lambda>z. z = y \<or> z \<in> set xs) ys = filter (\<lambda>z. z \<in> set xs) ys"
    by (intro filter_cong) auto
  then show ?case using list_emb_Cons2 by simp
qed

lemma select_anchors_Inr:
  assumes "select_anchors c N K = Inr a"
  shows "1 \<le> N \<and> c \<noteq> []"
  using assms
  by (auto simp: select_anchors_def cut_def nbins_to_bins_eq split: sum.splits if_splits)

lemma assigned_bin_eq:
  assumes "1 \<le> N" "select_anchor_candidates s \<noteq> []"
  shows "assigned_bin s N v = cut_label (bin_edges (candidate_rts s) (nat N)) v"
  using assms by (simp add: assigned_bin_def nbins_to_bins_eq candidate_rts_def)

lemma select_anchors_rows:
  assumes "1 \<le> N" "select_anchor_candidates s \<noteq> []"
  shows "select_anchors (select_anchor_candidates s) N K =
    Inr (map (\<lambda>p. (ID p, LIBRARY_RT p)) (anchor_rows s N K))"
proof -
  let ?cp = "filter (\<lambda>p. DECOY p = 0) (PRECURSOR s)"
  have c: "select_anchor_candidates s = map (\<lambda>p. (ID p, LIBRARY_RT p)) ?cp"
    by (simp add: select_anchor_candidates_def)
  have x: "map snd (select_anchor_candidates s) \<noteq> []" using assms(2) by simp
  have "cut (map snd (select_anchor_candidates s)) N =
      Inr (map (\<lambda>p. assigned_bin s N (LIBRARY_RT p)) ?cp)"
    using cut_eq[OF assms(1) x] assigned_bin_eq[OF assms]
    by (simp add: candidate_rts_def c comp_def)
  moreover have "groupby_head (map (\<lambda>p. assigned_bin s N (LIBRARY_RT p)) ?cp) K
      (map (\<lambda>p. (ID p, LIBRARY_RT p)) ?cp) =
      map (\<lambda>p. (ID p, LIBRARY_RT p)) (anchor_rows s N K)"
    by (simp add: anchor_rows_def Let_def groupby_head_map)
  ultimately show ?thesis
    unfolding select_anchors_def by (simp add: c)
qed

lemma anchor_rows_subseq:
  "subseq (anchor_rows s N K) (filter (\<lambda>p. DECOY p = 0) (PRECURSOR s))"
  by (simp add: anchor_rows_def Let_def groupby_head_subseq)

lemma anchor_rows_subseq_table: "subseq (anchor_rows s N K) (PRECURSOR s)"
  using anchor_rows_subseq subseq_filter_left subseq_order.order_trans by blast

lemma anchor_rows_target: "p \<in> set (anchor_rows s N K) \<Longrightarrow> DECOY p = 0 \<and> p \<in> set (PRECURSOR s)"
  using subseq_set[OF anchor_rows_subseq, of s N K] by auto

lemma kept_rows:
  assumes "primary_key s"
  shows "filter (\<lambda>p. ID p \<in> fst ` set (map (\<lambda>p. (ID p, LIBRARY_RT p)) (anchor_rows s N K))) (PRECURSOR s) =
    anchor_rows s N K"
proof -
  have inj: "inj_on ID (set (PRECURSOR s))" and d: "distinct (PRECURSOR s)"
    using assms by (simp_all add: primary_key_def distinct_map)
  have "filter (\<lambda>p. ID p \<in> fst ` set (map (\<lambda>p. (ID p, LIBRARY_RT p)) (anchor_rows s N K))) (PRECURSOR s) =
      filter (\<lambda>p. p \<in> set (anchor_rows s N K)) (PRECURSOR s)"
  proof (rule filter_cong[OF refl])
    fix p assume p: "p \<in> set (PRECURSOR s)"
    show "(ID p \<in> fst ` set (map (\<lambda>p. (ID p, LIBRARY_RT p)) (anchor_rows s N K))) =
      (p \<in> set (anchor_rows s N K))"
    proof
      assume "ID p \<in> fst ` set (map (\<lambda>p. (ID p, LIBRARY_RT p)) (anchor_rows s N K))"
      then obtain q where q: "q \<in> set (anchor_rows s N K)" "ID q = ID p" by auto
      then have "q \<in> set (PRECURSOR s)" using anchor_rows_target by blast
      then have "q = p" using inj p q(2) by (auto dest: inj_onD)
      then show "p \<in> set (anchor_rows s N K)" using q(1) by simp
    next
      assume "p \<in> set (anchor_rows s N K)"
      then show "ID p \<in> fst ` set (map (\<lambda>p. (ID p, LIBRARY_RT p)) (anchor_rows s N K))" by force
    qed
  qed
  also have "\<dots> = anchor_rows s N K"
    by (rule subseq_filter_mem[OF anchor_rows_subseq_table d])
  finally show ?thesis .
qed

lemma PRECURSOR_reduced_tables:
  "PRECURSOR (reduced_tables a s) = filter (\<lambda>p. ID p \<in> fst ` set a) (PRECURSOR s)"
  by (simp add: reduced_tables_def Let_def)

text \<open>What a run that ends well has done.\<close>

lemma reduce_command_outcome:
  assumes "fst (reduce_command in_opt out_opt N K w) = Inr ()"
  shows "\<exists>infile outfile s. in_opt = Some infile \<and> out_opt = Some outfile \<and> outfile \<noteq> infile \<and>
    files w infile = Some (Database s) \<and> temp_anchors s = None \<and> 1 \<le> N \<and>
    select_anchor_candidates s \<noteq> [] \<and>
    snd (reduce_command in_opt out_opt N K w) =
      w\<lparr>files := (files w)(outfile \<mapsto>
           Database (reduced_tables (map (\<lambda>p. (ID p, LIBRARY_RT p)) (anchor_rows s N K)) s)),
        log := log w @ reduce_events infile outfile\<rparr>"
proof -
  from assms obtain infile outfile where io: "in_opt = Some infile" "out_opt = Some outfile"
    and r: "fst (reduce infile (Some outfile) N K w) = Inr ()"
    by (auto simp: reduce_command_def split: option.splits if_splits)
  from reduce_inversion[OF r] obtain s a where s: "files w infile = Some (Database s)"
    "outfile \<noteq> infile" "temp_anchors s = None"
    "select_anchors (select_anchor_candidates s) N K = Inr a" by blast
  from select_anchors_Inr[OF s(4)] have n: "1 \<le> N" "select_anchor_candidates s \<noteq> []" by simp_all
  from select_anchors_rows[OF n] s(4)
  have a: "a = map (\<lambda>p. (ID p, LIBRARY_RT p)) (anchor_rows s N K)" by simp
  have "reduce_command in_opt out_opt N K w = reduce infile (Some outfile) N K w"
    using io s(1) by (simp add: reduce_command_def)
  then show ?thesis
    using reduce_success[OF s] io s n a by simp
qed

lemma reduce_command_runs:
  assumes "files w infile = Some (Database s)" "outfile \<noteq> infile" "temp_anchors s = None"
    "1 \<le> N" "select_anchor_candidates s \<noteq> []"
  shows "reduce_command (Some infile) (Some outfile) N K w =
    (Inr (), w\<lparr>files := (files w)(outfile \<mapsto>
           Database (reduced_tables (map (\<lambda>p. (ID p, LIBRARY_RT p)) (anchor_rows s N K)) s)),
        log := log w @ reduce_events infile outfile\<rparr>)"
  using reduce_success[OF assms(1-3) select_anchors_rows[OF assms(4,5)]] assms(1)
  by (simp add: reduce_command_def)

section \<open>Referential integrity\<close>

lemma reduced_tables_sel:
  "PRECURSOR (reduced_tables a s) = filter (\<lambda>p. ID p \<in> fst ` set a) (PRECURSOR s)"
  "TRANSITION_PRECURSOR_MAPPING (reduced_tables a s) =
     filter (\<lambda>r. snd r \<in> fst ` set a) (TRANSITION_PRECURSOR_MAPPING s)"
  "TRANSITION (reduced_tables a s) =
     filter (\<lambda>t. t \<in> fst ` set (TRANSITION_PRECURSOR_MAPPING (reduced_tables a s))) (TRANSITION s)"
  "PRECURSOR_PEPTIDE_MAPPING (reduced_tables a s) =
     filter (\<lambda>r. fst r \<in> fst ` set a) (PRECURSOR_PEPTIDE_MAPPING s)"
  "PEPTIDE (reduced_tables a s) =
     filter (\<lambda>i. i \<in> snd ` set (PRECURSOR_PEPTIDE_MAPPING (reduced_tables a s))) (PEPTIDE s)"
  "PEPTIDE_PROTEIN_MAPPING (reduced_tables a s) =
     filter (\<lambda>r. fst r \<in> snd ` set (PRECURSOR_PEPTIDE_MAPPING (reduced_tables a s)))
       (PEPTIDE_PROTEIN_MAPPING s)"
  "PROTEIN (reduced_tables a s) =
     filter (\<lambda>i. i \<in> snd ` set (PEPTIDE_PROTEIN_MAPPING (reduced_tables a s))) (PROTEIN s)"
  "temp_anchors (reduced_tables a s) = None"
  by (simp_all add: reduced_tables_def Let_def)

lemma reduced_tables_integrity:
  assumes "referential_integrity s"
  shows "referential_integrity (reduced_tables a s)"
proof -
  define s' where "s' = reduced_tables a s"
  note sel = reduced_tables_sel[of a s, folded s'_def]
  have i1: "\<And>t p. (t, p) \<in> set (TRANSITION_PRECURSOR_MAPPING s) \<Longrightarrow>
      t \<in> set (TRANSITION s) \<and> p \<in> ID ` set (PRECURSOR s)"
    using assms unfolding referential_integrity_def by fastforce
  have i2: "\<And>p e. (p, e) \<in> set (PRECURSOR_PEPTIDE_MAPPING s) \<Longrightarrow>
      p \<in> ID ` set (PRECURSOR s) \<and> e \<in> set (PEPTIDE s)"
    using assms unfolding referential_integrity_def by fastforce
  have i3: "\<And>e q. (e, q) \<in> set (PEPTIDE_PROTEIN_MAPPING s) \<Longrightarrow>
      e \<in> set (PEPTIDE s) \<and> q \<in> set (PROTEIN s)"
    using assms unfolding referential_integrity_def by fastforce
  have i5: "\<And>p. p \<in> set (PRECURSOR s) \<Longrightarrow>
      ID p \<in> snd ` set (TRANSITION_PRECURSOR_MAPPING s) \<union> fst ` set (PRECURSOR_PEPTIDE_MAPPING s)"
    using assms unfolding referential_integrity_def by blast
  have t1: "fst r \<in> set (TRANSITION s') \<and> snd r \<in> ID ` set (PRECURSOR s')"
    if "r \<in> set (TRANSITION_PRECURSOR_MAPPING s')" for r
  proof -
    obtain t p where r: "r = (t, p)" by (cases r)
    from that have m: "(t, p) \<in> set (TRANSITION_PRECURSOR_MAPPING s)" "p \<in> fst ` set a"
      by (simp_all add: sel(2) r)
    from i1[OF m(1)] obtain q where q: "t \<in> set (TRANSITION s)" "q \<in> set (PRECURSOR s)" "ID q = p"
      by auto
    have "t \<in> fst ` set (TRANSITION_PRECURSOR_MAPPING s')" using that r by force
    then have "t \<in> set (TRANSITION s')" using q(1) by (simp add: sel(3))
    moreover have "q \<in> set (PRECURSOR s')" using q m(2) by (simp add: sel(1))
    ultimately show ?thesis using q(3) r by force
  qed
  have t2: "fst r \<in> ID ` set (PRECURSOR s') \<and> snd r \<in> set (PEPTIDE s')"
    if "r \<in> set (PRECURSOR_PEPTIDE_MAPPING s')" for r
  proof -
    obtain p e where r: "r = (p, e)" by (cases r)
    from that have m: "(p, e) \<in> set (PRECURSOR_PEPTIDE_MAPPING s)" "p \<in> fst ` set a"
      by (simp_all add: sel(4) r)
    from i2[OF m(1)] obtain q where q: "e \<in> set (PEPTIDE s)" "q \<in> set (PRECURSOR s)" "ID q = p"
      by auto
    have "e \<in> snd ` set (PRECURSOR_PEPTIDE_MAPPING s')" using that r by force
    then have "e \<in> set (PEPTIDE s')" using q(1) by (simp add: sel(5))
    moreover have "q \<in> set (PRECURSOR s')" using q m(2) by (simp add: sel(1))
    ultimately show ?thesis using q(3) r by force
  qed
  have t3: "fst r \<in> set (PEPTIDE s') \<and> snd r \<in> set (PROTEIN s')"
    if "r \<in> set (PEPTIDE_PROTEIN_MAPPING s')" for r
  proof -
    obtain e q where r: "r = (e, q)" by (cases r)
    from that have m: "(e, q) \<in> set (PEPTIDE_PROTEIN_MAPPING s)"
      "e \<in> snd ` set (PRECURSOR_PEPTIDE_MAPPING s')"
      by (simp_all add: sel(6) r)
    from i3[OF m(1)] have "e \<in> set (PEPTIDE s)" "q \<in> set (PROTEIN s)" by simp_all
    moreover have "q \<in> snd ` set (PEPTIDE_PROTEIN_MAPPING s')" using that r by force
    ultimately show ?thesis using m(2) r by (simp add: sel(5) sel(7))
  qed
  have t4: "t \<in> fst ` set (TRANSITION_PRECURSOR_MAPPING s')" if "t \<in> set (TRANSITION s')" for t
    using that by (simp add: sel(3))
  have t5: "ID p \<in> snd ` set (TRANSITION_PRECURSOR_MAPPING s') \<union> fst ` set (PRECURSOR_PEPTIDE_MAPPING s')"
    if "p \<in> set (PRECURSOR s')" for p
  proof -
    from that have p: "p \<in> set (PRECURSOR s)" "ID p \<in> fst ` set a" by (simp_all add: sel(1))
    from i5[OF p(1)] consider r where "r \<in> set (TRANSITION_PRECURSOR_MAPPING s)" "snd r = ID p"
      | r where "r \<in> set (PRECURSOR_PEPTIDE_MAPPING s)" "fst r = ID p" by force
    then show ?thesis
    proof cases
      case 1
      then have "r \<in> set (TRANSITION_PRECURSOR_MAPPING s')" using p(2) by (simp add: sel(2))
      then show ?thesis using 1(2) by force
    next
      case 2
      then have "r \<in> set (PRECURSOR_PEPTIDE_MAPPING s')" using p(2) by (simp add: sel(4))
      then show ?thesis using 2(2) by force
    qed
  qed
  have t6: "i \<in> snd ` set (PRECURSOR_PEPTIDE_MAPPING s') \<union> fst ` set (PEPTIDE_PROTEIN_MAPPING s')"
    if "i \<in> set (PEPTIDE s')" for i
    using that by (simp add: sel(5))
  have t7: "i \<in> snd ` set (PEPTIDE_PROTEIN_MAPPING s')" if "i \<in> set (PROTEIN s')" for i
    using that by (simp add: sel(7))
  have "referential_integrity s'"
    unfolding referential_integrity_def using t1 t2 t3 t4 t5 t6 t7 by blast
  then show ?thesis by (simp add: s'_def)
qed

lemma disk_file: "files (disk s) ''library.pqp'' = Some (Database s)"
  by (simp add: disk_def)

lemma gradient_store_ready:
  "temp_anchors gradient_store = None" "select_anchor_candidates gradient_store \<noteq> []"
  "primary_key gradient_store"
  by (simp_all add: gradient_store_def select_anchor_candidates_def row_def primary_key_def)

lemma gradient_run:
  "1 \<le> N \<Longrightarrow> fst (reduce_command (Some ''library.pqp'') (Some ''reduced.pqp'') N K (disk gradient_store)) = Inr ()"
  using reduce_command_runs[OF disk_file _ gradient_store_ready(1) _ gradient_store_ready(2),
      of "''reduced.pqp''" N K]
  by simp

text \<open>
  C1. After a run of reduce that ends well on a store that satisfies the invariant of
  the relational store, the store at the output path satisfies it too: every row of the
  three mapping tables names an existing row on both sides, and every protein, peptide,
  precursor and transition that is left is named by a mapping row.
\<close>

theorem reduce_keeps_referential_integrity:
  assumes "fst (reduce_command (Some infile) (Some outfile) N K w) = Inr ()"
    and "files w infile = Some (Database s)"
    and "referential_integrity s"
  shows "\<exists>s'. files (snd (reduce_command (Some infile) (Some outfile) N K w)) outfile =
      Some (Database s') \<and> referential_integrity s'"
proof -
  from reduce_command_outcome[OF assms(1)] assms(2)
  have "files (snd (reduce_command (Some infile) (Some outfile) N K w)) outfile =
      Some (Database (reduced_tables (map (\<lambda>p. (ID p, LIBRARY_RT p)) (anchor_rows s N K)) s))"
    by auto
  then show ?thesis using reduced_tables_integrity[OF assms(3)] by blast
qed

theorem reduce_keeps_referential_integrity_witness:
  "referential_integrity gradient_store \<and>
   (\<exists>s'. files (snd (reduce_command (Some ''library.pqp'') (Some ''reduced.pqp'') 3 1
       (disk gradient_store))) ''reduced.pqp'' = Some (Database s') \<and> referential_integrity s')"
proof -
  have inv: "referential_integrity gradient_store"
    by (simp add: referential_integrity_def gradient_store_def row_def)
  have run: "fst (reduce_command (Some ''library.pqp'') (Some ''reduced.pqp'') 3 1
      (disk gradient_store)) = Inr ()"
    by (rule gradient_run) simp
  show ?thesis
    using inv reduce_keeps_referential_integrity[OF run disk_file inv] by simp
qed

section \<open>What is left in the output\<close>

lemma reduce_command_store:
  assumes "fst (reduce_command (Some infile) (Some outfile) N K w) = Inr ()"
    and "files w infile = Some (Database s)"
  shows "files (snd (reduce_command (Some infile) (Some outfile) N K w)) outfile =
      Some (Database (reduced_tables (map (\<lambda>p. (ID p, LIBRARY_RT p)) (anchor_rows s N K)) s))"
    and "1 \<le> N" and "select_anchor_candidates s \<noteq> []" and "temp_anchors s = None"
    and "outfile \<noteq> infile"
  using reduce_command_outcome[OF assms(1)] assms(2) by auto

lemma reduced_precursors:
  assumes "primary_key s"
  shows "PRECURSOR (reduced_tables (map (\<lambda>p. (ID p, LIBRARY_RT p)) (anchor_rows s N K)) s) =
    anchor_rows s N K"
  using kept_rows[OF assms] by (simp add: PRECURSOR_reduced_tables)


lemma anchor_in_rows:
  assumes "primary_key s" and "p \<in> set (PRECURSOR s)"
  shows "p \<in> set (anchor_rows s N K) \<longleftrightarrow>
    (ID p, LIBRARY_RT p) \<in> set (map (\<lambda>p. (ID p, LIBRARY_RT p)) (anchor_rows s N K))"
proof
  assume "(ID p, LIBRARY_RT p) \<in> set (map (\<lambda>p. (ID p, LIBRARY_RT p)) (anchor_rows s N K))"
  then obtain q where q: "q \<in> set (anchor_rows s N K)" "ID q = ID p" by auto
  have "inj_on ID (set (PRECURSOR s))" using assms(1) by (simp add: primary_key_def distinct_map)
  moreover have "q \<in> set (PRECURSOR s)" using q(1) anchor_rows_target by blast
  ultimately have "q = p" using assms(2) q(2) by (auto dest: inj_onD)
  then show "p \<in> set (anchor_rows s N K)" using q(1) by simp
qed force




section \<open>Bins and counts\<close>






lemma row_sel: "ID (row i rt d) = i" "LIBRARY_RT (row i rt d) = rt" "DECOY (row i rt d) = d"
  by (simp_all add: row_def)








section \<open>Empty bins and the order of the steps\<close>

lemma gradient_store_rts: "candidate_rts gradient_store = [9, 10, 29, 0, 30]"
  by (simp add: candidate_rts_def select_anchor_candidates_def gradient_store_def row_def)

lemma gradient_store_candidates:
  "select_anchor_candidates gradient_store = [(1, 9), (2, 10), (3, 29), (4, 0), (5, 30)]"
  by (simp add: select_anchor_candidates_def gradient_store_def row_def)

lemma linspace_fl_exact: "linspace_fl (\<lambda>x. x) start stop num = linspace start stop num"
  by (auto simp: linspace_fl_def linspace_def Let_def add.commute)

lemma nbins_to_bins_fl_exact: "nbins_to_bins_fl (\<lambda>x. x) x N = nbins_to_bins x N"
  by (simp add: nbins_to_bins_fl_def nbins_to_bins_def linspace_fl_exact Let_def mult.commute)

lemma select_anchors_fl_exact: "select_anchors_fl (\<lambda>x. x) c N K = select_anchors c N K"
  by (simp add: select_anchors_fl_def select_anchors_def cut_fl_def cut_def nbins_to_bins_fl_exact)

lemma reduce_fl_exact: "reduce_fl (\<lambda>x. x) infile outfile N K = reduce infile outfile N K"
  by (simp add: reduce_fl_def reduce_def select_anchors_fl_exact)

text \<open>Without rounding the command is the command of the exact computation.\<close>

lemma reduce_command_fl_exact:
  "reduce_command_fl (\<lambda>x. x) in_opt out_opt N K w = reduce_command in_opt out_opt N K w"
  by (simp add: reduce_command_fl_def reduce_command_def reduce_fl_exact split: option.splits)

lemma reduce_command_fl_runs:
  assumes "files w infile = Some (Database s)" "outfile \<noteq> infile" "temp_anchors s = None"
    "select_anchors_fl fl (select_anchor_candidates s) N K = Inr a"
  shows "reduce_command_fl fl (Some infile) (Some outfile) N K w =
    (Inr (), w\<lparr>files := (files w)(outfile \<mapsto> Database (reduced_tables a s)),
               log := log w @ reduce_events infile outfile\<rparr>)"
  using assms
  by (simp add: reduce_command_fl_def reduce_fl_def io_defs reduced_tables_def reduce_events_def
      Let_def)

lemma reduce_command_fl_raises:
  assumes "files w infile = Some (Database s)" "outfile \<noteq> infile"
    "select_anchors_fl fl (select_anchor_candidates s) N K = Inl e"
  shows "reduce_command_fl fl (Some infile) (Some outfile) N K w =
    (Inl e, w\<lparr>files := (files w)(outfile \<mapsto> Database s),
               log := log w @ [Copyfile infile outfile, Connect outfile, Read_sql]\<rparr>)"
  using assms
  by (simp add: reduce_command_fl_def reduce_fl_def io_defs)

lemma select_anchors_fl_edges:
  assumes "nbins_to_bins_fl fl (map snd c) N = Inr edges"
  shows "select_anchors_fl fl c N K =
    (if \<not> distinct edges \<and> length edges \<noteq> 2 then Inl (ValueError Bin_edges_not_unique)
     else Inr (groupby_head (map (\<lambda>r. cut_label edges (snd r)) c) K c))"
  using assms by (simp add: select_anchors_fl_def cut_fl_def bins_to_cuts_def comp_def)

lemma groupby_head_set: "set (groupby_head (map key xs) n xs) \<subseteq> set xs"
  using groupby_head_subseq[of key xs n] by (rule subseq_set)

lemma candidate_rts_snd: "map snd (select_anchor_candidates s) = candidate_rts s"
  by (simp add: candidate_rts_def)

text \<open>Floors and ceilings of quotients of numerals, and the rounding at a given number.\<close>

lemma floor_rat_numeral: "\<lfloor>(numeral a :: rat) / numeral b\<rfloor> = numeral a div numeral b"
  using floor_divide_of_int_eq[of "numeral a" "numeral b", where ?'a = rat] by simp

lemma ceiling_rat_numeral:
  "\<lceil>(numeral a :: rat) / numeral b\<rceil> = - (- numeral a div numeral b)"
  using ceiling_divide_eq_div[of "numeral a" "numeral b", where ?'a = rat] by simp

lemmas double_eval = double_def ilog2_def round_half_even_def Let_def compute_floorlog
  floor_rat_numeral ceiling_rat_numeral

lemma double_thousandth: "double (1 / 1000) = 1152921504606847 / 1152921504606846976"
  by (simp add: double_eval)

lemma double_third_of_ulp:
  "double (1 / 2 ^ 52 / 3) = 6004799503160661 / 2 ^ 106"
  "double (6004799503160661 / 2 ^ 106 + 1) = 1"
  "double (2 * (6004799503160661 / 2 ^ 106) + 1) = 1 + 1 / 2 ^ 52"
  by (simp_all add: double_eval)

lemma gradient_store_edges_double:
  "nbins_to_bins_fl double (candidate_rts gradient_store) 4 =
     Inr [0, 15 / 2, 15, 45 / 2, 1056586693827625 / 35184372088832]"
  by (simp add: gradient_store_rts nbins_to_bins_fl_def linspace_fl_def upt_rec double_eval)

lemma gradient_store_labels_double:
  "map (\<lambda>c. cut_label [0, 15 / 2, 15, 45 / 2, 1056586693827625 / 35184372088832] (snd c))
     (select_anchor_candidates gradient_store) = [Some 1, Some 1, Some 3, Some 0, Some 3]"
  by (simp add: gradient_store_candidates cut_label_def searchsorted_right_def)

lemma gradient_store_anchors_double:
  "groupby_head [Some 1, Some 1, Some 3, Some 0, Some (3::nat)] 1
     (select_anchor_candidates gradient_store) = [(1, 9), (3, 29), (4, 0)]"
  by (simp add: gradient_store_candidates groupby_head_def)

lemma ulp_store_ready:
  "temp_anchors ulp_store = None"
  "select_anchor_candidates ulp_store = [(1, 1), (2, 1 + 1 / 2 ^ 52)]"
  "candidate_rts ulp_store = [1, 1 + 1 / 2 ^ 52]"
  by (simp_all add: ulp_store_def select_anchor_candidates_def candidate_rts_def row_def)

lemma ulp_store_edges_double:
  "nbins_to_bins_fl double (candidate_rts ulp_store) 3 =
     Inr [1, 1, 1 + 1 / 2 ^ 52, 1 + 1 / 2 ^ 52]"
  by (simp add: ulp_store_ready nbins_to_bins_fl_def linspace_fl_def upt_rec double_eval)

lemma ulp_store_edges_exact:
  "nbins_to_bins (candidate_rts ulp_store) 3 =
     Inr [1, 1 + 1 / 2 ^ 52 / 3, 1 + 2 * (1 / 2 ^ 52 / 3), 1 + 1 / 2 ^ 52 + 1 / 2 ^ 52 / 1000]"
  by (simp add: ulp_store_ready nbins_to_bins_def linspace_def Let_def upt_rec)

text \<open>
  C8. A bin that no candidate falls into is no error in itself, and it gives no anchor.
  The edges of line 143 are computed with every arithmetic result rounded by \<open>fl\<close>
  (the identity, rounding to doubles, or any other rounding). When the input file
  exists, the output path is another path, the copy has no table \<^verbatim>\<open>temp_anchors\<close>
  left over, the computation of the edges returns (so \<open>N \<ge> 1\<close> and there is a
  candidate) and the edges are pairwise different (or just two), reduce ends well
  whichever bins are empty: it has done all its steps, the output file holds the store
  reduced to the anchors, the anchors are the first \<open>K\<close> candidates of every bin, and a
  bin without candidates has no anchor.
\<close>

theorem reduce_accepts_empty_bins:
  assumes "files w infile = Some (Database s)"
    and "outfile \<noteq> infile"
    and "temp_anchors s = None"
    and "nbins_to_bins_fl fl (candidate_rts s) N = Inr edges"
    and "distinct edges \<or> length edges = 2"
  shows "\<exists>a. reduce_command_fl fl (Some infile) (Some outfile) N K w =
        (Inr (), w\<lparr>files := (files w)(outfile \<mapsto> Database (reduced_tables a s)),
                   log := log w @ reduce_events infile outfile\<rparr>) \<and>
      a = groupby_head (map (\<lambda>c. cut_label edges (snd c)) (select_anchor_candidates s)) K
            (select_anchor_candidates s) \<and>
      (\<forall>b. (\<forall>c\<in>set (select_anchor_candidates s). cut_label edges (snd c) \<noteq> Some b) \<longrightarrow>
           (\<forall>c\<in>set a. cut_label edges (snd c) \<noteq> Some b))"
proof -
  let ?c = "select_anchor_candidates s"
  let ?a = "groupby_head (map (\<lambda>c. cut_label edges (snd c)) ?c) K ?c"
  have edges: "nbins_to_bins_fl fl (map snd ?c) N = Inr edges"
    using assms(4) by (simp add: candidate_rts_snd)
  have "select_anchors_fl fl ?c N K = Inr ?a"
    using select_anchors_fl_edges[OF edges, of K] assms(5) by auto
  then have run: "reduce_command_fl fl (Some infile) (Some outfile) N K w =
      (Inr (), w\<lparr>files := (files w)(outfile \<mapsto> Database (reduced_tables ?a s)),
                 log := log w @ reduce_events infile outfile\<rparr>)"
    by (rule reduce_command_fl_runs[OF assms(1-3)])
  have "set ?a \<subseteq> set ?c" by (rule groupby_head_set)
  then have "\<forall>b. (\<forall>c\<in>set ?c. cut_label edges (snd c) \<noteq> Some b) \<longrightarrow>
      (\<forall>c\<in>set ?a. cut_label edges (snd c) \<noteq> Some b)"
    by blast
  with run show ?thesis by blast
qed

theorem reduce_accepts_empty_bins_witness:
  "files (disk gradient_store) ''library.pqp'' = Some (Database gradient_store) \<and>
   ''reduced.pqp'' \<noteq> ''library.pqp'' \<and> temp_anchors gradient_store = None \<and>
   nbins_to_bins_fl double (candidate_rts gradient_store) 4 =
     Inr [0, 15 / 2, 15, 45 / 2, 1056586693827625 / 35184372088832] \<and>
   distinct [0, 15 / 2, 15, 45 / 2, 1056586693827625 / 35184372088832 :: rat] \<and>
   map (\<lambda>c. cut_label [0, 15 / 2, 15, 45 / 2, 1056586693827625 / 35184372088832] (snd c))
     (select_anchor_candidates gradient_store) = [Some 1, Some 1, Some 3, Some 0, Some 3] \<and>
   reduce_command_fl double (Some ''library.pqp'') (Some ''reduced.pqp'') 4 1 (disk gradient_store) =
     (Inr (), (disk gradient_store)
        \<lparr>files := (files (disk gradient_store))(''reduced.pqp'' \<mapsto>
            Database (reduced_tables [(1, 9), (3, 29), (4, 0)] gradient_store)),
         log := log (disk gradient_store) @ reduce_events ''library.pqp'' ''reduced.pqp''\<rparr>)"
proof -
  have ne: "''reduced.pqp'' \<noteq> ''library.pqp''" by simp
  have d: "distinct [0, 15 / 2, 15, 45 / 2, 1056586693827625 / 35184372088832 :: rat]" by simp
  then have d2: "distinct [0, 15 / 2, 15, 45 / 2, 1056586693827625 / 35184372088832 :: rat] \<or>
      length [0, 15 / 2, 15, 45 / 2, 1056586693827625 / 35184372088832 :: rat] = 2" ..
  from reduce_accepts_empty_bins[OF disk_file ne gradient_store_ready(1)
      gradient_store_edges_double d2, of 1]
  have "reduce_command_fl double (Some ''library.pqp'') (Some ''reduced.pqp'') 4 1
        (disk gradient_store) =
      (Inr (), (disk gradient_store)
        \<lparr>files := (files (disk gradient_store))(''reduced.pqp'' \<mapsto>
            Database (reduced_tables
              (groupby_head
                (map (\<lambda>c. cut_label [0, 15 / 2, 15, 45 / 2, 1056586693827625 / 35184372088832]
                    (snd c)) (select_anchor_candidates gradient_store)) 1
                (select_anchor_candidates gradient_store)) gradient_store)),
         log := log (disk gradient_store) @ reduce_events ''library.pqp'' ''reduced.pqp''\<rparr>)"
    by blast
  then have run: "reduce_command_fl double (Some ''library.pqp'') (Some ''reduced.pqp'') 4 1
        (disk gradient_store) =
      (Inr (), (disk gradient_store)
        \<lparr>files := (files (disk gradient_store))(''reduced.pqp'' \<mapsto>
            Database (reduced_tables [(1, 9), (3, 29), (4, 0)] gradient_store)),
         log := log (disk gradient_store) @ reduce_events ''library.pqp'' ''reduced.pqp''\<rparr>)"
    unfolding gradient_store_labels_double gradient_store_anchors_double .
  show ?thesis
    using disk_file[of gradient_store] ne gradient_store_ready(1) gradient_store_edges_double d
      gradient_store_labels_double run
    by blast
qed

text \<open>
  C8, the claim as it is worded, refuted. Two candidates at neighbouring doubles, 1 and
  \<open>1 + 2\<^sup>-\<^sup>5\<^sup>2\<close>, and three bins: in doubles a third of the difference added to 1
  is 1 again, the edges come out as \<open>1, 1, 1 + 2\<^sup>-\<^sup>5\<^sup>2, 1 + 2\<^sup>-\<^sup>5\<^sup>2\<close>, and the first
  bin, from 1 to 1, is empty. \<^verbatim>\<open>pandas.cut\<close> raises \<^verbatim>\<open>ValueError\<close> (bin edges must be
  unique); the command stops after the copy, the connection and the query, and the
  output file is the unreduced copy. Computed exactly, the same edges are pairwise
  different.
\<close>

theorem neighbouring_doubles_raise:
  "files (disk ulp_store) ''library.pqp'' = Some (Database ulp_store) \<and>
   ''reduced.pqp'' \<noteq> ''library.pqp'' \<and> temp_anchors ulp_store = None \<and>
   select_anchor_candidates ulp_store = [(1, 1), (2, 1 + 1 / 2 ^ 52)] \<and>
   nbins_to_bins_fl double (candidate_rts ulp_store) 3 =
     Inr [1, 1, 1 + 1 / 2 ^ 52, 1 + 1 / 2 ^ 52] \<and>
   map (cut_label [1, 1, 1 + 1 / 2 ^ 52, 1 + 1 / 2 ^ 52]) (candidate_rts ulp_store) =
     [Some 1, None] \<and>
   reduce_command_fl double (Some ''library.pqp'') (Some ''reduced.pqp'') 3 1 (disk ulp_store) =
     (Inl (ValueError Bin_edges_not_unique), (disk ulp_store)
        \<lparr>files := (files (disk ulp_store))(''reduced.pqp'' \<mapsto> Database ulp_store),
         log := log (disk ulp_store) @
           [Copyfile ''library.pqp'' ''reduced.pqp'', Connect ''reduced.pqp'', Read_sql]\<rparr>) \<and>
   fst (reduce_command_fl double (Some ''library.pqp'') (Some ''reduced.pqp'') 3 1 (disk ulp_store))
     \<noteq> Inr ()"
proof -
  have ne: "''reduced.pqp'' \<noteq> ''library.pqp''" by simp
  have edges: "nbins_to_bins_fl double (map snd (select_anchor_candidates ulp_store)) 3 =
      Inr [1, 1, 1 + 1 / 2 ^ 52, 1 + 1 / 2 ^ 52]"
    using ulp_store_edges_double by (simp add: candidate_rts_snd)
  have "select_anchors_fl double (select_anchor_candidates ulp_store) 3 1 =
      Inl (ValueError Bin_edges_not_unique)"
    using select_anchors_fl_edges[OF edges, of 1] by simp
  then have run: "reduce_command_fl double (Some ''library.pqp'') (Some ''reduced.pqp'') 3 1
        (disk ulp_store) =
      (Inl (ValueError Bin_edges_not_unique), (disk ulp_store)
        \<lparr>files := (files (disk ulp_store))(''reduced.pqp'' \<mapsto> Database ulp_store),
         log := log (disk ulp_store) @
           [Copyfile ''library.pqp'' ''reduced.pqp'', Connect ''reduced.pqp'', Read_sql]\<rparr>)"
    by (rule reduce_command_fl_raises[OF disk_file ne])
  have labels: "map (cut_label [1, 1, 1 + 1 / 2 ^ 52, 1 + 1 / 2 ^ 52]) (candidate_rts ulp_store) =
      [Some 1, None]"
    by (simp add: ulp_store_ready cut_label_def searchsorted_right_def)
  show ?thesis
    using disk_file[of ulp_store] ne ulp_store_ready(1,2) ulp_store_edges_double labels run
    by simp
qed

text \<open>
  C4, as the code has it. In every run of reduce that ends well the commit comes after
  the seven deletions and the drop of the temporary table and before the reclaiming of
  storage: \<^verbatim>\<open>VACUUM\<close> runs after the commit, outside the transaction, and is followed
  only by the closing of the connection and the message.
\<close>

theorem reduce_commits_before_vacuum:
  assumes "fst (reduce_command (Some infile) (Some outfile) N K w) = Inr ()"
  shows "log (snd (reduce_command (Some infile) (Some outfile) N K w)) =
    log w @
    [Copyfile infile outfile, Connect outfile, Read_sql, To_sql,
     Execute DELETE_PRECURSOR, Execute DELETE_TRANSITION_PRECURSOR_MAPPING,
     Execute DELETE_TRANSITION, Execute DELETE_PRECURSOR_PEPTIDE_MAPPING,
     Execute DELETE_PEPTIDE, Execute DELETE_PEPTIDE_PROTEIN_MAPPING,
     Execute DELETE_PROTEIN, Execute DROP_TABLE_temp_anchors,
     Commit, Execute VACUUM, Close, Echo]"
  using reduce_command_outcome[OF assms] by (auto simp: reduce_events_def)

theorem reduce_commits_before_vacuum_witness:
  "fst (reduce_command (Some ''library.pqp'') (Some ''reduced.pqp'') 3 1 (disk gradient_store)) = Inr () \<and>
   log (snd (reduce_command (Some ''library.pqp'') (Some ''reduced.pqp'') 3 1 (disk gradient_store))) =
    log (disk gradient_store) @
    [Copyfile ''library.pqp'' ''reduced.pqp'', Connect ''reduced.pqp'', Read_sql, To_sql,
     Execute DELETE_PRECURSOR, Execute DELETE_TRANSITION_PRECURSOR_MAPPING,
     Execute DELETE_TRANSITION, Execute DELETE_PRECURSOR_PEPTIDE_MAPPING,
     Execute DELETE_PEPTIDE, Execute DELETE_PEPTIDE_PROTEIN_MAPPING,
     Execute DELETE_PROTEIN, Execute DROP_TABLE_temp_anchors,
     Commit, Execute VACUUM, Close, Echo]"
proof -
  have run: "fst (reduce_command (Some ''library.pqp'') (Some ''reduced.pqp'') 3 1
      (disk gradient_store)) = Inr ()"
    by (rule gradient_run) simp
  show ?thesis
    using run reduce_commits_before_vacuum[OF run] by blast
qed

text \<open>
  C4, as the claim words it, fails: in the run on the example store the commit is the
  thirteenth action and \<^verbatim>\<open>VACUUM\<close> the fourteenth, so storage has not been reclaimed
  when the commit is done.
\<close>

theorem commit_precedes_vacuum:
  "fst (reduce_command (Some ''library.pqp'') (Some ''reduced.pqp'') 3 1 (disk gradient_store)) = Inr () \<and>
   log (snd (reduce_command (Some ''library.pqp'') (Some ''reduced.pqp'') 3 1 (disk gradient_store))) ! 12
     = Commit \<and>
   log (snd (reduce_command (Some ''library.pqp'') (Some ''reduced.pqp'') 3 1 (disk gradient_store))) ! 13
     = Execute VACUUM \<and>
   Execute VACUUM \<notin> set (take 13
     (log (snd (reduce_command (Some ''library.pqp'') (Some ''reduced.pqp'') 3 1 (disk gradient_store)))))"
proof -
  have run: "fst (reduce_command (Some ''library.pqp'') (Some ''reduced.pqp'') 3 1
      (disk gradient_store)) = Inr ()"
    by (rule gradient_run) simp
  from reduce_command_outcome[OF run]
  have "log (snd (reduce_command (Some ''library.pqp'') (Some ''reduced.pqp'') 3 1
      (disk gradient_store))) = reduce_events ''library.pqp'' ''reduced.pqp''"
    by (auto simp: disk_def)
  then show ?thesis using run by (simp add: reduce_events_def)
qed

text \<open>SQLite refuses to reclaim storage while a transaction is open.\<close>

lemma vacuum_in_transaction:
  "in_transaction con \<Longrightarrow> execute VACUUM con w = (Inl OperationalError, w)"
  by (simp add: execute_def)

section \<open>Zero bins and the optional import\<close>

text \<open>
  C5, as the code has it. With zero bins, an input file that holds a store and an output
  path other than the input path, reduce fails with the error of the binning step,
  after it has copied the input file to the output path, opened the copy and read the
  candidates; the copy is left as it was made, no table changed.
\<close>

theorem reduce_zero_bins:
  assumes "files w infile = Some (Database s)" and "outfile \<noteq> infile"
  shows "reduce_command (Some infile) (Some outfile) 0 K w =
    (Inl (ValueError Bins_not_positive),
     w\<lparr>files := (files w)(outfile \<mapsto> Database s),
       log := log w @ [Copyfile infile outfile, Connect outfile, Read_sql]\<rparr>)"
  using assms
  by (simp add: reduce_command_def reduce_def io_defs select_anchors_def cut_def nbins_to_bins_def)

theorem reduce_zero_bins_witness:
  "files (disk gradient_store) ''library.pqp'' = Some (Database gradient_store) \<and>
   ''reduced.pqp'' \<noteq> ''library.pqp'' \<and>
   reduce_command (Some ''library.pqp'') (Some ''reduced.pqp'') 0 5 (disk gradient_store) =
    (Inl (ValueError Bins_not_positive),
     (disk gradient_store)\<lparr>files := (files (disk gradient_store))(''reduced.pqp'' \<mapsto> Database gradient_store),
       log := log (disk gradient_store) @
         [Copyfile ''library.pqp'' ''reduced.pqp'', Connect ''reduced.pqp'', Read_sql]\<rparr>)"
proof -
  have ne: "''reduced.pqp'' \<noteq> ''library.pqp''" by simp
  show ?thesis
    using disk_file[of gradient_store] ne reduce_zero_bins[OF disk_file ne, where K = 5 and s = gradient_store]
    by blast
qed

text \<open>
  C5, as the claim words it, fails: with zero bins the run on the example store ends in
  an error, and by then the output file, absent before, is a copy of the input, and the
  copying, the opening and the reading are done.
\<close>

theorem zero_bins_fails_after_copy:
  "fst (reduce_command (Some ''library.pqp'') (Some ''reduced.pqp'') 0 5 (disk gradient_store)) =
     Inl (ValueError Bins_not_positive) \<and>
   files (disk gradient_store) ''reduced.pqp'' = None \<and>
   files (snd (reduce_command (Some ''library.pqp'') (Some ''reduced.pqp'') 0 5 (disk gradient_store)))
     ''reduced.pqp'' = Some (Database gradient_store) \<and>
   log (disk gradient_store) = [] \<and>
   log (snd (reduce_command (Some ''library.pqp'') (Some ''reduced.pqp'') 0 5 (disk gradient_store))) =
     [Copyfile ''library.pqp'' ''reduced.pqp'', Connect ''reduced.pqp'', Read_sql]"
  by (simp add: disk_def reduce_command_def reduce_def io_defs select_anchors_def cut_def
      nbins_to_bins_def)

text \<open>
  C6, as the code has it. When the import of pyprophet raises \<^verbatim>\<open>ModuleNotFoundError\<close>,
  the module loads with \<^verbatim>\<open>transform_pi0_lambda\<close> bound to \<^verbatim>\<open>None\<close>, the option
  \<^verbatim>\<open>--pi0_lambda\<close> has no callback, and the library command raises nothing: it calls
  \<^verbatim>\<open>generate\<close> with the three numbers as they were given.
\<close>

theorem library_without_pyprophet:
  "transform_pi0_lambda (Inl ModuleNotFoundError) = Inr None \<and>
   library_command (Inl ModuleNotFoundError) value = Calls_generate (Tuple value)"
  by (simp add: library_command_def transform_pi0_lambda_def library_def)

text \<open>
  C6, as the claim words it, fails: with the import failed and the default value of the
  option, the command raises no error and goes on to \<^verbatim>\<open>generate\<close> with the value
  untransformed.
\<close>

theorem library_proceeds_without_transform:
  "library_command (Inl ModuleNotFoundError :: error + (rat \<times> rat \<times> rat \<Rightarrow> error + rat list))
     (1 / 10, 1 / 2, 1 / 20) = Calls_generate (Tuple (1 / 10, 1 / 2, 1 / 20)) \<and>
   library_command (Inl ModuleNotFoundError :: error + (rat \<times> rat \<times> rat \<Rightarrow> error + rat list))
     (1 / 10, 1 / 2, 1 / 20) \<noteq> Raised ModuleNotFoundError"
  by (simp add: library_command_def transform_pi0_lambda_def library_def)

lemma library_with_pyprophet:
  "library_command (Inr f) value =
     (case f value of Inl e \<Rightarrow> Raised e | Inr v \<Rightarrow> Calls_generate (Transformed v))"
  by (simp add: library_command_def transform_pi0_lambda_def library_def)

section \<open>The input file\<close>

lemma reduce_other_files:
  assumes "p \<noteq> outfile"
  shows "files (snd (reduce infile (Some outfile) N K w)) p = files w p"
  using assms
  by (auto simp add: reduce_def io_defs split: option.splits database.splits sum.splits if_splits)

lemma reduce_same_file:
  assumes "files w infile \<noteq> None"
  shows "reduce infile (Some infile) N K w = (Inl SameFileError, w)"
  using assms by (auto simp add: reduce_def bind_def define_outfile_def copyfile_def)

text \<open>
  Without an output path the function works on the input file itself. The command line
  never calls it so, since \<^verbatim>\<open>--out\<close> is required.
\<close>

lemma reduce_in_place:
  assumes "files w infile = Some (Database s)" "temp_anchors s = None"
    "select_anchors (select_anchor_candidates s) bins peptides = Inr a"
  shows "reduce infile None bins peptides w =
    (Inr (), w\<lparr>files := (files w)(infile \<mapsto> Database (reduced_tables a s)),
               log := log w @ tl (reduce_events infile infile)\<rparr>)"
  using assms
  by (simp add: reduce_def io_defs reduced_tables_def reduce_events_def Let_def)

lemma reduce_command_needs_out:
  "reduce_command in_opt None N K w = (Inl UsageError, w)"
  by (simp add: reduce_command_def split: option.splits)

text \<open>
  C10. The reduce command never changes the input file: whatever it changes is at the
  output path, and when the output path is the input path the copy raises before the
  store is opened, with nothing changed and nothing done.
\<close>

theorem reduce_leaves_input_file:
  "files (snd (reduce_command (Some infile) out_opt N K w)) infile = files w infile \<and>
   (\<forall>outfile p. out_opt = Some outfile \<and> p \<noteq> outfile \<longrightarrow>
      files (snd (reduce_command (Some infile) out_opt N K w)) p = files w p) \<and>
   (out_opt = Some infile \<and> files w infile \<noteq> None \<longrightarrow>
      reduce_command (Some infile) out_opt N K w = (Inl SameFileError, w))"
proof (intro conjI allI impI)
  show "files (snd (reduce_command (Some infile) out_opt N K w)) infile = files w infile"
  proof (cases out_opt)
    case None
    then show ?thesis by (simp add: reduce_command_needs_out)
  next
    case (Some outfile)
    show ?thesis
    proof (cases "outfile = infile \<or> files w infile = None")
      case True
      then show ?thesis using Some reduce_same_file[of w infile N K]
        by (auto simp: reduce_command_def)
    next
      case False
      then have "infile \<noteq> outfile" by blast
      from reduce_other_files[OF this, of infile N K w] show ?thesis
        using Some False by (auto simp: reduce_command_def)
    qed
  qed
next
  fix outfile p
  assume "out_opt = Some outfile \<and> p \<noteq> outfile"
  then show "files (snd (reduce_command (Some infile) out_opt N K w)) p = files w p"
    using reduce_other_files[of p outfile infile N K w] by (simp add: reduce_command_def)
next
  assume "out_opt = Some infile \<and> files w infile \<noteq> None"
  then show "reduce_command (Some infile) out_opt N K w = (Inl SameFileError, w)"
    using reduce_same_file[of w infile N K] by (simp add: reduce_command_def)
qed

theorem reduce_leaves_input_file_witness:
  "files (disk gradient_store) ''library.pqp'' \<noteq> None \<and>
   reduce_command (Some ''library.pqp'') (Some ''library.pqp'') 3 1 (disk gradient_store) =
     (Inl SameFileError, disk gradient_store) \<and>
   ''library.pqp'' \<noteq> ''reduced.pqp'' \<and>
   fst (reduce_command (Some ''library.pqp'') (Some ''reduced.pqp'') 3 1 (disk gradient_store)) = Inr () \<and>
   files (snd (reduce_command (Some ''library.pqp'') (Some ''reduced.pqp'') 3 1 (disk gradient_store)))
     ''library.pqp'' = Some (Database gradient_store)"
proof -
  have ex: "files (disk gradient_store) ''library.pqp'' \<noteq> None" by (simp add: disk_file)
  have ne: "''library.pqp'' \<noteq> ''reduced.pqp''" by simp
  have run: "fst (reduce_command (Some ''library.pqp'') (Some ''reduced.pqp'') 3 1
      (disk gradient_store)) = Inr ()"
    by (rule gradient_run) simp
  show ?thesis
    using ex ne run disk_file[of gradient_store]
      reduce_leaves_input_file[of "''library.pqp''" "Some ''library.pqp''" 3 1 "disk gradient_store"]
      reduce_leaves_input_file[of "''library.pqp''" "Some ''reduced.pqp''" 3 1 "disk gradient_store"]
    by simp
qed

section \<open>Reducing twice\<close>
























section \<open>The rows of a bin, decoys and the primary key\<close>

lemma duplicate_store_ready:
  "temp_anchors duplicate_store = None" "select_anchor_candidates duplicate_store \<noteq> []"
  "candidate_rts duplicate_store = [0, 1, 10]"
  "PRECURSOR duplicate_store = [row 1 0 0, row 1 1 0, row 1 2 1, row 2 10 0]"
  "\<not> primary_key duplicate_store"
  by (simp_all add: duplicate_store_def select_anchor_candidates_def candidate_rts_def row_def
      primary_key_def)

lemma duplicate_store_edges:
  "nbins_to_bins (candidate_rts duplicate_store) 2 = Inr [0, 5, 1001 / 100]"
  by (simp add: duplicate_store_ready nbins_to_bins_def linspace_def Let_def upt_rec)

lemma duplicate_store_bins:
  "assigned_bin duplicate_store 2 0 = Some 0" "assigned_bin duplicate_store 2 1 = Some 0"
  "assigned_bin duplicate_store 2 2 = Some 0" "assigned_bin duplicate_store 2 10 = Some 1"
  by (simp_all add: assigned_bin_def duplicate_store_edges cut_label_def searchsorted_right_def)

lemma duplicate_store_anchor_rows:
  "anchor_rows duplicate_store 2 1 = [row 1 0 0, row 2 10 0]"
  by (simp add: anchor_rows_def groupby_head_def Let_def duplicate_store_ready row_sel
      duplicate_store_bins)

lemma duplicate_store_reduced:
  "reduced_tables [(1, 0), (2, 10)] duplicate_store = duplicate_store"
  by (simp add: reduced_tables_def Let_def duplicate_store_def row_def)

lemma duplicate_store_run:
  "reduce_command (Some ''library.pqp'') (Some ''reduced.pqp'') 2 1 (disk duplicate_store) =
    (Inr (), (disk duplicate_store)\<lparr>files := (files (disk duplicate_store))(''reduced.pqp'' \<mapsto>
         Database duplicate_store),
      log := log (disk duplicate_store) @ reduce_events ''library.pqp'' ''reduced.pqp''\<rparr>)"
proof -
  have ne: "''reduced.pqp'' \<noteq> ''library.pqp''" by simp
  have n: "(1::int) \<le> 2" by simp
  show ?thesis
    using reduce_command_runs[OF disk_file ne duplicate_store_ready(1) n duplicate_store_ready(2), of 1]
    by (simp add: duplicate_store_anchor_rows row_sel duplicate_store_reduced)
qed






text \<open>
  C9, as the code has it. In a run of reduce that ends well the anchors are taken from
  the rows with \<^verbatim>\<open>DECOY = 0\<close> only, and the rows left in \<^verbatim>\<open>PRECURSOR\<close> are those
  whose identifier is an anchor's: every other precursor is deleted. In a store whose
  precursors have distinct identifiers a precursor stays exactly when it is an anchor,
  and the output holds no decoy precursor.
\<close>

theorem reduce_leaves_no_decoy:
  assumes "fst (reduce_command (Some infile) (Some outfile) N K w) = Inr ()"
    and "files w infile = Some (Database s)"
  shows "\<exists>s' a. files (snd (reduce_command (Some infile) (Some outfile) N K w)) outfile =
        Some (Database s') \<and>
      select_anchors (select_anchor_candidates s) N K = Inr a \<and>
      (\<forall>c\<in>set a. \<exists>p\<in>set (PRECURSOR s). DECOY p = 0 \<and> c = (ID p, LIBRARY_RT p)) \<and>
      PRECURSOR s' = filter (\<lambda>p. ID p \<in> fst ` set a) (PRECURSOR s) \<and>
      (primary_key s \<longrightarrow>
        (\<forall>p\<in>set (PRECURSOR s). p \<in> set (PRECURSOR s') \<longleftrightarrow> (ID p, LIBRARY_RT p) \<in> set a) \<and>
        (\<forall>p\<in>set (PRECURSOR s'). DECOY p = 0))"
proof -
  define a where "a = map (\<lambda>p. (ID p, LIBRARY_RT p)) (anchor_rows s N K)"
  define s' where "s' = reduced_tables a s"
  note st = reduce_command_store[OF assms(1,2), folded a_def s'_def]
  have sel: "select_anchors (select_anchor_candidates s) N K = Inr a"
    unfolding a_def by (rule select_anchors_rows[OF st(2,3)])
  have targets: "\<forall>c\<in>set a. \<exists>p\<in>set (PRECURSOR s). DECOY p = 0 \<and> c = (ID p, LIBRARY_RT p)"
    unfolding a_def using anchor_rows_target by fastforce
  have rows: "PRECURSOR s' = filter (\<lambda>p. ID p \<in> fst ` set a) (PRECURSOR s)"
    unfolding s'_def by (rule PRECURSOR_reduced_tables)
  have keyed: "(\<forall>p\<in>set (PRECURSOR s). p \<in> set (PRECURSOR s') \<longleftrightarrow> (ID p, LIBRARY_RT p) \<in> set a) \<and>
      (\<forall>p\<in>set (PRECURSOR s'). DECOY p = 0)" if pk: "primary_key s"
  proof -
    have kept: "PRECURSOR s' = anchor_rows s N K"
      unfolding s'_def a_def by (rule reduced_precursors[OF pk])
    have "\<forall>p\<in>set (PRECURSOR s). p \<in> set (anchor_rows s N K) \<longleftrightarrow> (ID p, LIBRARY_RT p) \<in> set a"
      unfolding a_def using anchor_in_rows[OF pk] by blast
    moreover have "\<forall>p\<in>set (anchor_rows s N K). DECOY p = 0"
      using anchor_rows_target by blast
    ultimately show ?thesis unfolding kept by blast
  qed
  show ?thesis using st(1) sel targets rows keyed by blast
qed

theorem reduce_leaves_no_decoy_witness:
  "fst (reduce_command (Some ''library.pqp'') (Some ''reduced.pqp'') 3 1 (disk gradient_store)) = Inr () \<and>
   files (disk gradient_store) ''library.pqp'' = Some (Database gradient_store) \<and>
   primary_key gradient_store \<and>
   row 6 12 1 \<in> set (PRECURSOR gradient_store) \<and>
   (\<exists>s' a. files (snd (reduce_command (Some ''library.pqp'') (Some ''reduced.pqp'') 3 1
         (disk gradient_store))) ''reduced.pqp'' = Some (Database s') \<and>
      select_anchors (select_anchor_candidates gradient_store) 3 1 = Inr a \<and>
      (\<forall>c\<in>set a. \<exists>p\<in>set (PRECURSOR gradient_store). DECOY p = 0 \<and> c = (ID p, LIBRARY_RT p)) \<and>
      PRECURSOR s' = filter (\<lambda>p. ID p \<in> fst ` set a) (PRECURSOR gradient_store) \<and>
      (\<forall>p\<in>set (PRECURSOR gradient_store).
         p \<in> set (PRECURSOR s') \<longleftrightarrow> (ID p, LIBRARY_RT p) \<in> set a) \<and>
      (\<forall>p\<in>set (PRECURSOR s'). DECOY p = 0))"
proof -
  have run: "fst (reduce_command (Some ''library.pqp'') (Some ''reduced.pqp'') 3 1
      (disk gradient_store)) = Inr ()"
    by (rule gradient_run) simp
  have decoy: "row 6 12 1 \<in> set (PRECURSOR gradient_store)"
    by (simp add: gradient_store_def)
  show ?thesis
    using run disk_file[of gradient_store] gradient_store_ready(3) decoy
      reduce_leaves_no_decoy[OF run disk_file]
    by blast
qed

text \<open>
  C9, as the claim words it, fails on a store without the primary key. In the example
  the decoy at retention time 2 has the identifier 1, as the anchor at 0 has. With two
  bins and one row per bin the run ends well, and the decoy is still in the output.
\<close>

theorem decoy_with_anchor_identifier_stays:
  "fst (reduce_command (Some ''library.pqp'') (Some ''reduced.pqp'') 2 1 (disk duplicate_store)) = Inr () \<and>
   files (snd (reduce_command (Some ''library.pqp'') (Some ''reduced.pqp'') 2 1 (disk duplicate_store)))
     ''reduced.pqp'' = Some (Database duplicate_store) \<and>
   row 1 2 1 \<in> set (PRECURSOR duplicate_store) \<and>
   DECOY (row 1 2 1) = 1"
  by (simp add: duplicate_store_run duplicate_store_ready(4) row_sel)

end
